theory Spec2Isabelle
  imports Main "HOL-Library.Word"
begin

section \<open>Image time-synchronizer (ImageSync.hpp)\<close>

text \<open>
  The class pairs colour and depth images by capture time. Its members are modelled as a
  record that every operation takes and returns. Sequence counters are \<open>u_int32_t\<close> and
  timestamps \<open>u_int64_t\<close>, so both are machine words and wrap as in the source.
\<close>

type_synonym u32 = "32 word"
type_synonym u64 = "64 word"

text \<open>
  A \<open>SharedPtr\<close> may be null: \<open>None\<close> is the null pointer. An image message carries the
  two fields of \<open>header.stamp\<close> (\<open>int32 sec\<close>, \<open>uint32 nanosec\<close>) and its pixel data.
\<close>

type_synonym 'a shared_ptr = "'a option"

record 'p image =
  stamp_sec :: int
  stamp_nanosec :: nat
  pixels :: 'p

text \<open>
  \<open>u_int64_t nanoseconds = msg->header.stamp.nanosec + msg->header.stamp.sec * 1e9\<close>.
  The source evaluates the right-hand side in double precision and converts to 64 bits;
  the two agree with the integer expression below whenever the value is non-negative and
  below \<open>2^53\<close>, which is the range the concrete inputs of this development stay in.
\<close>

definition nanoseconds_of :: "'p image \<Rightarrow> u64" where
  "nanoseconds_of msg = word_of_int (int (stamp_nanosec msg) + stamp_sec msg * 1000000000)"

text \<open>
  \<open>acceptable_synchronization_error_nanoseconds = 1e9 * 0.01\<close>: the initialiser converts
  to the integer ten million; no member function assigns the field afterwards.
\<close>

definition acceptable_synchronization_error_nanoseconds :: u64 where
  "acceptable_synchronization_error_nanoseconds = 10000000"

text \<open>
  \<open>std::abs<long>(static_cast<long>(a) - static_cast<long>(b))\<close>, compared with an unsigned
  64-bit value: the difference is taken in 64 bits, read as signed, its magnitude read back
  as unsigned.
\<close>

definition abs_long_diff :: "u64 \<Rightarrow> u64 \<Rightarrow> u64" where
  "abs_long_diff a b = word_of_int \<bar>sint (a - b)\<bar>"

subsection \<open>The priority queues\<close>

text \<open>
  \<open>std::priority_queue\<close> with \<open>MyComparator\<close> (\<open>a.first > b.first\<close>) keeps an entry of
  least timestamp on top. The queue is modelled by the list of its entries in the order they
  would be popped; among equal timestamps, which the standard leaves open, the entry pushed
  first is popped first.
\<close>

type_synonym value_type = "u64 \<times> u32"

fun pq_push :: "value_type \<Rightarrow> value_type list \<Rightarrow> value_type list" where
  "pq_push x [] = [x]"
| "pq_push x (y # ys) = (if fst x < fst y then x # y # ys else y # pq_push x ys)"

subsection \<open>The maps\<close>

text \<open>
  \<open>std::unordered_map::operator[]\<close> returns the stored pointer and, for an absent key,
  inserts a null pointer first.
\<close>

type_synonym 'p image_map = "u32 \<rightharpoonup> 'p image shared_ptr"

definition map_at :: "'p image_map \<Rightarrow> u32 \<Rightarrow> 'p image_map \<times> 'p image shared_ptr" where
  "map_at m k = (case m k of Some p \<Rightarrow> (m, p) | None \<Rightarrow> (m(k \<mapsto> None), None))"

definition map_erase :: "'p image_map \<Rightarrow> u32 \<Rightarrow> 'p image_map" where
  "map_erase m k = m(k := None)"

subsection \<open>State and operations\<close>

text \<open>
  \<open>calls\<close> records the invocations of the user's \<open>callback\<close>, oldest first, with the two
  pointers it was given. The diagnostic line printed when a map exceeds 1000 entries writes
  to standard output only and is left out.
\<close>

record 'p ImageSync =
  counter :: u32
  rgb_map :: "'p image_map"
  depth_map :: "'p image_map"
  queue_rgb :: "value_type list"
  queue_depth :: "value_type list"
  calls :: "('p image shared_ptr \<times> 'p image shared_ptr) list"

definition new_ImageSync :: "'p ImageSync" where
  "new_ImageSync =
     \<lparr>counter = 0, rgb_map = Map.empty, depth_map = Map.empty,
      queue_rgb = [], queue_depth = [], calls = []\<rparr>"

text \<open>The three branches of the loop body of \<open>resolve\<close>, for queues with tops.\<close>

definition pair_heads :: "'p ImageSync \<Rightarrow> 'p ImageSync" where
  "pair_heads s =
     (let kr = snd (hd (queue_rgb s)); kd = snd (hd (queue_depth s));
          (mr, pr) = map_at (rgb_map s) kr;
          (md, pd) = map_at (depth_map s) kd
      in s\<lparr>calls := calls s @ [(pr, pd)],
           rgb_map := map_erase mr kr,
           depth_map := map_erase md kd,
           queue_rgb := tl (queue_rgb s),
           queue_depth := tl (queue_depth s)\<rparr>)"

definition drop_rgb_head :: "'p ImageSync \<Rightarrow> 'p ImageSync" where
  "drop_rgb_head s =
     (let kr = snd (hd (queue_rgb s));
          (mr, pr) = map_at (rgb_map s) kr
      in s\<lparr>rgb_map := map_erase (mr(kr \<mapsto> None)) kr,
           queue_rgb := tl (queue_rgb s)\<rparr>)"

definition drop_depth_head :: "'p ImageSync \<Rightarrow> 'p ImageSync" where
  "drop_depth_head s =
     (let kd = snd (hd (queue_depth s));
          (md, pd) = map_at (depth_map s) kd
      in s\<lparr>depth_map := map_erase (md(kd \<mapsto> None)) kd,
           queue_depth := tl (queue_depth s)\<rparr>)"

definition resolve_body :: "'p ImageSync \<Rightarrow> 'p ImageSync" where
  "resolve_body s =
     (let tr = fst (hd (queue_rgb s)); td = fst (hd (queue_depth s))
      in if abs_long_diff tr td < acceptable_synchronization_error_nanoseconds
         then pair_heads s
         else if tr < td then drop_rgb_head s else drop_depth_head s)"

function resolve :: "'p ImageSync \<Rightarrow> 'p ImageSync" where
  "resolve s =
     (if queue_rgb s = [] \<or> queue_depth s = [] then s else resolve (resolve_body s))"
  by pat_completeness auto
termination
proof (relation "measure (\<lambda>s. length (queue_rgb s) + length (queue_depth s))")
  fix s :: "'p ImageSync"
  assume "\<not> (queue_rgb s = [] \<or> queue_depth s = [])"
  then show "(resolve_body s, s) \<in> measure (\<lambda>s. length (queue_rgb s) + length (queue_depth s))"
    by (cases "queue_rgb s"; cases "queue_depth s")
       (auto simp: resolve_body_def pair_heads_def drop_rgb_head_def drop_depth_head_def
          Let_def split: prod.splits)
qed simp

declare resolve.simps [simp del]

definition callback_rgb :: "'p image \<Rightarrow> 'p ImageSync \<Rightarrow> 'p ImageSync" where
  "callback_rgb msg s =
     (let nanoseconds = nanoseconds_of msg
      in resolve (s\<lparr>rgb_map := (rgb_map s)(counter s \<mapsto> Some msg),
                    queue_rgb := pq_push (nanoseconds, counter s) (queue_rgb s),
                    counter := counter s + 1\<rparr>))"

definition callback_depth :: "'p image \<Rightarrow> 'p ImageSync \<Rightarrow> 'p ImageSync" where
  "callback_depth msg s =
     (let nanoseconds = nanoseconds_of msg
      in resolve (s\<lparr>depth_map := (depth_map s)(counter s \<mapsto> Some msg),
                    queue_depth := pq_push (nanoseconds, counter s) (queue_depth s),
                    counter := counter s + 1\<rparr>))"

text \<open>A run of the synchronizer: the ingest calls in the order they are made.\<close>

datatype 'p ingest = Rgb "'p image" | Depth "'p image"

fun ingest_step :: "'p ImageSync \<Rightarrow> 'p ingest \<Rightarrow> 'p ImageSync" where
  "ingest_step s (Rgb msg) = callback_rgb msg s"
| "ingest_step s (Depth msg) = callback_depth msg s"

definition run :: "'p ingest list \<Rightarrow> 'p ImageSync" where
  "run ops = foldl ingest_step new_ImageSync ops"

subsection \<open>The bookkeeping invariant\<close>

text \<open>
  What the queues and the maps are expected to satisfy between two ingest calls: each queue
  names exactly the keys of its map, and every key in use is below the counter.
  \<open>well_formed\<close> adds that no queue names a key twice, which the loop needs to keep the
  first part when it erases a key; \<open>stream_ok\<close> is the same for one stream.
\<close>

definition sync_invariant :: "'p ImageSync \<Rightarrow> bool" where
  "sync_invariant s \<longleftrightarrow>
     snd ` set (queue_rgb s) = dom (rgb_map s) \<and>
     snd ` set (queue_depth s) = dom (depth_map s) \<and>
     (\<forall>k \<in> snd ` set (queue_rgb s) \<union> snd ` set (queue_depth s). k < counter s)"

definition well_formed :: "'p ImageSync \<Rightarrow> bool" where
  "well_formed s \<longleftrightarrow>
     sync_invariant s \<and> distinct (map snd (queue_rgb s)) \<and> distinct (map snd (queue_depth s))"

definition stream_ok :: "'p image_map \<Rightarrow> value_type list \<Rightarrow> u32 \<Rightarrow> bool" where
  "stream_ok m q c \<longleftrightarrow>
     dom m = snd ` set q \<and> distinct (map snd q) \<and> (\<forall>k \<in> snd ` set q. k < c)"


text \<open>
  A run that keeps one colour frame waiting: a frame stamped one second, then depth frames
  stamped zero, each of which is older than the waiting frame and is dropped on arrival.
\<close>

definition late_rgb :: "unit image" where
  "late_rgb = \<lparr>stamp_sec = 1, stamp_nanosec = 0, pixels = ()\<rparr>"

definition early_depth :: "unit image" where
  "early_depth = \<lparr>stamp_sec = 0, stamp_nanosec = 0, pixels = ()\<rparr>"

definition waiting_rgb :: "u32 \<Rightarrow> unit ImageSync" where
  "waiting_rgb c =
     \<lparr>counter = c, rgb_map = [0 \<mapsto> Some late_rgb], depth_map = Map.empty,
      queue_rgb = [(1000000000, 0)], queue_depth = [], calls = []\<rparr>"

section \<open>Smart-classroom UI state (uiSlice)\<close>

text \<open>
  The Redux slice is a record and each reducer a function on it. A field of type
  \<open>string | null\<close> is a \<open>string option\<close>. JavaScript treats the empty string and
  \<open>null\<close> as false in a condition; \<open>truthy\<close> is that test.
\<close>

datatype Tab = Transcripts | Summary | Mindmap

datatype ProcessingMode = Audio | VideoOnly | Microphone

datatype AudioStatus =
  AudioIdle | AudioChecking | AudioReady | AudioRecording | AudioProcessing
  | AudioTranscribing | AudioSummarizing | AudioMindmapping | AudioComplete | AudioError
  | AudioNoDevices

datatype VideoStatus =
  VideoIdle | VideoReady | VideoStarting | VideoStreaming | VideoStopping | VideoFailed
  | VideoComplete | VideoNoConfig

datatype StreamView = Front | Back | Content | AllStreams

record UIState =
  aiProcessing :: bool
  summaryEnabled :: bool
  summaryLoading :: bool
  mindmapEnabled :: bool
  mindmapLoading :: bool
  activeTab :: Tab
  autoSwitched :: bool
  autoSwitchedToMindmap :: bool
  sessionId :: "string option"
  videoSessionId :: "string option"
  uploadedAudioPath :: "string option"
  shouldStartSummary :: bool
  shouldStartMindmap :: bool
  projectLocation :: string
  frontCamera :: string
  backCamera :: string
  boardCamera :: string
  frontCameraStream :: string
  backCameraStream :: string
  boardCameraStream :: string
  activeStream :: "StreamView option"
  videoAnalyticsLoading :: bool
  videoAnalyticsActive :: bool
  processingMode :: "ProcessingMode option"
  audioStatus :: AudioStatus
  videoStatus :: VideoStatus
  hasAudioDevices :: bool
  audioDevicesLoading :: bool
  isRecording :: bool
  justStoppedRecording :: bool
  videoAnalyticsStopping :: bool
  hasUploadedVideoFiles :: bool

definition initialState :: UIState where
  "initialState =
     \<lparr>aiProcessing = False, summaryEnabled = False, summaryLoading = False,
      mindmapEnabled = False, mindmapLoading = False, activeTab = Transcripts,
      autoSwitched = False, autoSwitchedToMindmap = False, sessionId = None,
      videoSessionId = None, uploadedAudioPath = None, shouldStartSummary = False,
      shouldStartMindmap = False, projectLocation = ''storage/'',
      frontCamera = '''', backCamera = '''', boardCamera = '''',
      frontCameraStream = '''', backCameraStream = '''', boardCameraStream = '''',
      activeStream = None, videoAnalyticsLoading = False, videoAnalyticsActive = False,
      processingMode = None, audioStatus = AudioIdle, videoStatus = VideoIdle,
      hasAudioDevices = True, audioDevicesLoading = False, isRecording = False,
      justStoppedRecording = False, videoAnalyticsStopping = False,
      hasUploadedVideoFiles = False\<rparr>"

subsection \<open>Strings as JavaScript reads them\<close>

text \<open>
  \<open>String.prototype.trim\<close> removes white space at both ends. Strings here are byte
  strings, and the white space recognised is the ASCII part of what JavaScript removes
  (tab, line feed, vertical tab, form feed, carriage return, space).
\<close>

definition js_whitespace :: "char \<Rightarrow> bool" where
  "js_whitespace c \<longleftrightarrow>
     c = CHR 0x09 \<or> c = CHR 0x0A \<or> c = CHR 0x0B \<or> c = CHR 0x0C \<or> c = CHR 0x0D \<or> c = CHR 0x20"

definition trim :: "string \<Rightarrow> string" where
  "trim s = rev (dropWhile js_whitespace (rev (dropWhile js_whitespace s)))"

definition truthy :: "string option \<Rightarrow> bool" where
  "truthy v = (case v of None \<Rightarrow> False | Some s \<Rightarrow> s \<noteq> [])"

text \<open>The sentinel stored as the audio path while the microphone is the source.\<close>

definition MICROPHONE :: string where
  "MICROPHONE = ''MICROPHONE''"

subsection \<open>Reducers\<close>

definition startProcessing :: "UIState \<Rightarrow> UIState" where
  "startProcessing state =
     state\<lparr>aiProcessing := True, summaryEnabled := False, summaryLoading := False,
           mindmapEnabled := False, mindmapLoading := False, activeTab := Transcripts,
           autoSwitched := False, autoSwitchedToMindmap := False, sessionId := None,
           uploadedAudioPath := None, shouldStartSummary := False,
           shouldStartMindmap := False, videoAnalyticsLoading := False,
           videoAnalyticsActive := False\<rparr>"

definition processingFailed :: "UIState \<Rightarrow> UIState" where
  "processingFailed state =
     state\<lparr>aiProcessing := False, summaryLoading := False, mindmapLoading := False,
           videoAnalyticsLoading := False, videoAnalyticsActive := False,
           processingMode := None, audioStatus := AudioError, videoStatus := VideoFailed,
           isRecording := False, videoAnalyticsStopping := False\<rparr>"

definition setUploadedAudioPath :: "string \<Rightarrow> UIState \<Rightarrow> UIState" where
  "setUploadedAudioPath payload state =
     (let state = state\<lparr>uploadedAudioPath := Some payload\<rparr>
      in if payload = MICROPHONE then state\<lparr>audioStatus := AudioRecording\<rparr>
         else if payload \<noteq> [] then state\<lparr>audioStatus := AudioProcessing\<rparr>
         else state)"

definition setSessionId :: "string option \<Rightarrow> UIState \<Rightarrow> UIState" where
  "setSessionId v state =
     (case v of
        Some s \<Rightarrow> if length (trim s) > 0 then state\<lparr>sessionId := Some s\<rparr> else state
      | None \<Rightarrow> state)"

definition setActiveStream :: "StreamView option \<Rightarrow> UIState \<Rightarrow> UIState" where
  "setActiveStream payload state = state\<lparr>activeStream := payload\<rparr>"

definition setFrontCameraStream :: "string \<Rightarrow> UIState \<Rightarrow> UIState" where
  "setFrontCameraStream payload state = state\<lparr>frontCameraStream := payload\<rparr>"

definition setBackCameraStream :: "string \<Rightarrow> UIState \<Rightarrow> UIState" where
  "setBackCameraStream payload state = state\<lparr>backCameraStream := payload\<rparr>"

definition setBoardCameraStream :: "string \<Rightarrow> UIState \<Rightarrow> UIState" where
  "setBoardCameraStream payload state = state\<lparr>boardCameraStream := payload\<rparr>"

definition startStream :: "UIState \<Rightarrow> UIState" where
  "startStream state = state\<lparr>activeStream := Some AllStreams, videoStatus := VideoStreaming\<rparr>"

definition setVideoAnalyticsLoading :: "bool \<Rightarrow> UIState \<Rightarrow> UIState" where
  "setVideoAnalyticsLoading payload state =
     (let state = state\<lparr>videoAnalyticsLoading := payload\<rparr>
      in if payload then state\<lparr>videoStatus := VideoStarting\<rparr> else state)"

definition setVideoAnalyticsActive :: "bool \<Rightarrow> UIState \<Rightarrow> UIState" where
  "setVideoAnalyticsActive payload state =
     (let state = state\<lparr>videoAnalyticsActive := payload\<rparr>
      in if payload then state\<lparr>videoStatus := VideoStreaming, videoAnalyticsLoading := False\<rparr>
         else if \<not> videoAnalyticsLoading state then state\<lparr>videoStatus := VideoReady\<rparr>
         else state)"

definition setProcessingMode :: "ProcessingMode option \<Rightarrow> UIState \<Rightarrow> UIState" where
  "setProcessingMode payload state = state\<lparr>processingMode := payload\<rparr>"

definition setAudioStatus :: "AudioStatus \<Rightarrow> UIState \<Rightarrow> UIState" where
  "setAudioStatus payload state = state\<lparr>audioStatus := payload\<rparr>"

definition setVideoStatus :: "VideoStatus \<Rightarrow> UIState \<Rightarrow> UIState" where
  "setVideoStatus payload state = state\<lparr>videoStatus := payload\<rparr>"

definition setHasAudioDevices :: "bool \<Rightarrow> UIState \<Rightarrow> UIState" where
  "setHasAudioDevices payload state =
     state\<lparr>hasAudioDevices := payload,
           audioStatus := (if payload then AudioReady else AudioNoDevices)\<rparr>"

definition setAudioDevicesLoading :: "bool \<Rightarrow> UIState \<Rightarrow> UIState" where
  "setAudioDevicesLoading payload state =
     (let state = state\<lparr>audioDevicesLoading := payload\<rparr>
      in if payload then state\<lparr>audioStatus := AudioChecking\<rparr> else state)"

definition setIsRecording :: "bool \<Rightarrow> UIState \<Rightarrow> UIState" where
  "setIsRecording payload state =
     (let state = state\<lparr>isRecording := payload\<rparr>
      in if payload then
           (let state = state\<lparr>justStoppedRecording := False\<rparr>;
                state = (if hasAudioDevices state then state\<lparr>audioStatus := AudioRecording\<rparr>
                         else state)
            in if videoStatus state = VideoReady then state\<lparr>videoStatus := VideoStarting\<rparr>
               else state)
         else state\<lparr>justStoppedRecording := True\<rparr>)"

definition setJustStoppedRecording :: "bool \<Rightarrow> UIState \<Rightarrow> UIState" where
  "setJustStoppedRecording payload state = state\<lparr>justStoppedRecording := payload\<rparr>"

definition setVideoAnalyticsStopping :: "bool \<Rightarrow> UIState \<Rightarrow> UIState" where
  "setVideoAnalyticsStopping payload state =
     (let state = state\<lparr>videoAnalyticsStopping := payload\<rparr>
      in if payload then state\<lparr>videoStatus := VideoStopping\<rparr> else state)"

definition startTranscription :: "UIState \<Rightarrow> UIState" where
  "startTranscription state = state\<lparr>audioStatus := AudioTranscribing\<rparr>"

definition setHasUploadedVideoFiles :: "bool \<Rightarrow> UIState \<Rightarrow> UIState" where
  "setHasUploadedVideoFiles payload state =
     (let state = state\<lparr>hasUploadedVideoFiles := payload\<rparr>
      in if payload \<and> videoStatus state = VideoNoConfig then state\<lparr>videoStatus := VideoReady\<rparr>
         else state)"

text \<open>
  \<open>resetFlow\<close>: the device and camera fields are read, \<open>Object.assign(state, initialState)\<close>
  overwrites every field, the saved fields are written back, and the two status fields are
  set from them.
\<close>

definition resetFlow :: "UIState \<Rightarrow> UIState" where
  "resetFlow state =
     (let preservedAudioDevices = hasAudioDevices state;
          preservedAudioDevicesLoading = audioDevicesLoading state;
          preservedFrontCamera = frontCamera state;
          preservedBackCamera = backCamera state;
          preservedBoardCamera = boardCamera state;
          state = initialState;
          state = state\<lparr>hasAudioDevices := preservedAudioDevices\<rparr>;
          state = state\<lparr>audioDevicesLoading := preservedAudioDevicesLoading\<rparr>;
          state = state\<lparr>frontCamera := preservedFrontCamera\<rparr>;
          state = state\<lparr>backCamera := preservedBackCamera\<rparr>;
          state = state\<lparr>boardCamera := preservedBoardCamera\<rparr>;
          state = state\<lparr>audioStatus :=
                    (if preservedAudioDevicesLoading then AudioChecking
                     else if preservedAudioDevices then AudioReady else AudioNoDevices)\<rparr>;
          hasVideoConfig =
            (trim preservedFrontCamera \<noteq> [] \<or> trim preservedBackCamera \<noteq> []
             \<or> trim preservedBoardCamera \<noteq> [])
      in state\<lparr>videoStatus := (if hasVideoConfig then VideoReady else VideoNoConfig)\<rparr>)"

section \<open>Smart-classroom UI components (Header.tsx, UploadFilesModal.tsx)\<close>

text \<open>
  A component works on the store and sends requests to the backend. The requests a handler
  sends are recorded in order; what the backend answers is an argument of the handler, so
  that a rejected request (a thrown error at the \<open>await\<close>) is one of its cases. Actions
  dispatched to slices other than \<open>ui\<close> are recorded by name.
\<close>

datatype api_call =
  CreateSession
  | StartMonitoring string
  | StopMonitoring
  | StartVideoAnalytics "(string \<times> string) list" string
  | StopMicrophone string
  | StopVideoAnalytics "string list" string
  | UploadAudio string
  | StartVideoAnalyticsPipeline "(string \<times> string) list" string
  | StreamTranscript string string
  | GetClassStatistics string

datatype other_action = ResetTranscript | ResetSummary | ClearMindmap

text \<open>
  Both components keep a \<open>monitoringTimer\<close> in their local state; the field says whether a
  timer is set.
\<close>

record App =
  ui :: UIState
  dispatched :: "other_action list"
  requests :: "api_call list"
  monitoringTimer :: bool

text \<open>One entry of the \<open>results\<close> of a video-analytics response.\<close>

record PipelineResult =
  pipeline_name :: string
  status :: string
  hls_stream :: "string option"

text \<open>
  \<open>startVideoAnalytics\<close> may reject, resolve without \<open>results\<close>, or resolve with them.
\<close>

datatype video_reply = VideoRejected | VideoNoResults | VideoResults "PipelineResult list"

text \<open>
  What the backend answers to the requests of the two components; \<open>None\<close> (or \<open>False\<close>)
  is a rejected request.
\<close>

record Replies =
  createSession_reply :: "string option"
  startMonitoring_reply :: bool
  startVideoAnalytics_reply :: video_reply
  stopMicrophone_reply :: bool
  stopVideoAnalytics_reply :: bool
  uploadAudio_reply :: "string option"
  startVideoAnalyticsPipeline_reply :: "PipelineResult list option"

definition dispatch :: "(UIState \<Rightarrow> UIState) \<Rightarrow> ('a App_scheme) \<Rightarrow> ('a App_scheme)" where
  "dispatch reducer app = app\<lparr>ui := reducer (ui app)\<rparr>"

definition dispatch_other :: "other_action \<Rightarrow> ('a App_scheme) \<Rightarrow> ('a App_scheme)" where
  "dispatch_other a app = app\<lparr>dispatched := dispatched app @ [a]\<rparr>"

definition request :: "api_call \<Rightarrow> ('a App_scheme) \<Rightarrow> ('a App_scheme)" where
  "request c app = app\<lparr>requests := requests app @ [c]\<rparr>"

definition store_stream :: "PipelineResult \<Rightarrow> UIState \<Rightarrow> UIState" where
  "store_stream r s =
     (let url = (case hls_stream r of Some u \<Rightarrow> u | None \<Rightarrow> [])
      in if pipeline_name r = ''front'' then setFrontCameraStream url s
         else if pipeline_name r = ''back'' then setBackCameraStream url s
         else if pipeline_name r = ''content'' then setBoardCameraStream url s
         else s)"

definition succeeded :: "PipelineResult \<Rightarrow> bool" where
  "succeeded r \<longleftrightarrow> status r = ''success'' \<and> truthy (hls_stream r)"

subsection \<open>Header: what can be recorded\<close>

text \<open>
  The header also reads the transcript status and two fields of the mind-map slice; those
  slices are not part of the sources at hand, so the three values are fields of the header's
  own record, next to its local \<open>errorMsg\<close>, \<open>timer\<close> and \<open>videoAnalyticsEnabled\<close>.
\<close>

record Header = App +
  errorMsg :: "string option"
  timer :: nat
  videoAnalyticsEnabled :: bool
  transcriptStatus :: string
  mindmapIsLoading :: bool
  mindmapFinalText :: "string option"

definition hasVideoCapability :: "UIState \<Rightarrow> bool" where
  "hasVideoCapability s =
     (let hasCameraSettings =
            (trim (frontCamera s) \<noteq> [] \<or> trim (backCamera s) \<noteq> []
             \<or> trim (boardCamera s) \<noteq> [])
      in hasCameraSettings \<or> hasUploadedVideoFiles s)"

definition hasNothingToRecord :: "UIState \<Rightarrow> bool" where
  "hasNothingToRecord s \<longleftrightarrow> \<not> hasAudioDevices s \<and> \<not> hasVideoCapability s"

definition isRecordingDisabled :: "Header \<Rightarrow> bool" where
  "isRecordingDisabled h =
     (let s = ui h
      in if isRecording s then False
         else (audioDevicesLoading s \<or> hasNothingToRecord s \<or> aiProcessing s
               \<or> transcriptStatus h = ''streaming'' \<or> summaryLoading s
               \<or> (mindmapEnabled s \<and>
                    (mindmapLoading s \<or> mindmapIsLoading h \<or> \<not> truthy (mindmapFinalText h)))
               \<or> videoAnalyticsStopping s \<or> videoAnalyticsLoading s))"

subsection \<open>Header: the record control\<close>

text \<open>
  \<open>handleRecordingToggle\<close>. The values the handler reads from its closure are those of the
  store and of the local state when it starts; they are passed on as \<open>c\<close>.
\<close>

definition session_of :: "UIState \<Rightarrow> string" where
  "session_of c = (case sessionId c of Some sid \<Rightarrow> sid | None \<Rightarrow> [])"

definition wasRecordingAudio :: "UIState \<Rightarrow> bool" where
  "wasRecordingAudio c \<longleftrightarrow> hasAudioDevices c \<and> uploadedAudioPath c = Some MICROPHONE"

text \<open>
  Stopping. The audio part of the \<open>try\<close> block; \<open>None\<close> when \<open>stopMicrophone\<close> rejects.
\<close>

definition stop_audio :: "bool \<Rightarrow> UIState \<Rightarrow> Header \<Rightarrow> Header option" where
  "stop_audio stopMicrophone_ok c h =
     (if truthy (sessionId c) \<and> wasRecordingAudio c then
        (let h = request (StopMicrophone (session_of c)) h
         in if stopMicrophone_ok then Some h else None)
      else if \<not> hasAudioDevices c then Some (dispatch (setAudioStatus AudioNoDevices) h)
      else if audioStatus c = AudioRecording then
        Some (dispatch (setAudioStatus (if hasAudioDevices c then AudioReady else AudioNoDevices)) h)
      else Some h)"

definition video_status_at_rest :: "UIState \<Rightarrow> VideoStatus" where
  "video_status_at_rest c = (if hasVideoCapability c then VideoReady else VideoNoConfig)"

definition clear_streams :: "Header \<Rightarrow> Header" where
  "clear_streams h =
     (let h = dispatch (setFrontCameraStream []) h;
          h = dispatch (setBackCameraStream []) h;
          h = dispatch (setBoardCameraStream []) h;
          h = dispatch (setActiveStream None) h
      in dispatch (setVideoAnalyticsActive False) h)"

definition stop_video :: "bool \<Rightarrow> UIState \<Rightarrow> Header \<Rightarrow> Header" where
  "stop_video stopVideoAnalytics_ok c h =
     (let wasVideoActive = (videoAnalyticsActive c \<and> hasVideoCapability c)
      in if wasVideoActive \<and> truthy (sessionId c) then
           (let h = dispatch (setVideoAnalyticsStopping True) h;
                h = request (StopVideoAnalytics [''front'', ''back'', ''content''] (session_of c)) h;
                h = (if stopVideoAnalytics_ok
                     then dispatch (setVideoStatus (video_status_at_rest c)) (clear_streams h)
                     else dispatch (setVideoStatus VideoFailed) h)
            in dispatch (setVideoAnalyticsStopping False) h)
         else if \<not> hasVideoCapability c then dispatch (setVideoStatus VideoNoConfig) h
         else clear_streams (dispatch (setVideoStatus (video_status_at_rest c)) h))"

definition stop_modes :: "UIState \<Rightarrow> Header \<Rightarrow> Header" where
  "stop_modes c h =
     (let h = (if \<not> wasRecordingAudio c \<or> \<not> hasAudioDevices c
               then dispatch (setProcessingMode None) h else h)
      in if uploadedAudioPath c = Some MICROPHONE \<and> \<not> wasRecordingAudio c
         then dispatch (setUploadedAudioPath []) h else h)"

text \<open>The \<open>catch\<close> block.\<close>

definition stop_failed :: "UIState \<Rightarrow> Header \<Rightarrow> Header" where
  "stop_failed c h =
     (let h = h\<lparr>errorMsg := Some ''errors.failedToStopRecording''\<rparr>;
          h = dispatch (setVideoAnalyticsStopping False) h;
          h = dispatch (setAudioStatus (if hasAudioDevices c then AudioReady else AudioNoDevices)) h;
          h = dispatch (setVideoStatus (video_status_at_rest c)) h;
          h = dispatch (setProcessingMode None) h
      in dispatch (setUploadedAudioPath []) h)"

definition stop_recording :: "Replies \<Rightarrow> UIState \<Rightarrow> Header \<Rightarrow> Header" where
  "stop_recording replies c h =
     (let h = dispatch (setIsRecording False) h;
          h = dispatch (setJustStoppedRecording True) h
      in case stop_audio (stopMicrophone_reply replies) c h of
           None \<Rightarrow> stop_failed c (request (StopMicrophone (session_of c)) h)
         | Some h \<Rightarrow> stop_modes c (stop_video (stopVideoAnalytics_reply replies) c h))"

text \<open>Starting. \<open>startVideoAnalyticsInBackground\<close>, with its \<open>finally\<close> block last.\<close>

fun store_header_streams :: "PipelineResult list \<Rightarrow> Header \<Rightarrow> Header" where
  "store_header_streams [] h = h"
| "store_header_streams (r # rs) h =
     store_header_streams rs (if succeeded r then dispatch (store_stream r) h else h)"

definition startVideoAnalyticsInBackground ::
  "video_reply \<Rightarrow> bool \<Rightarrow> string \<Rightarrow> UIState \<Rightarrow> Header \<Rightarrow> Header" where
  "startVideoAnalyticsInBackground reply enabled sid c h =
     (if \<not> enabled then h
      else
        (let front = trim (frontCamera c); back = trim (backCamera c); board = trim (boardCamera c);
             h = (if front = [] \<and> back = [] \<and> board = [] then
                    dispatch (setVideoStatus VideoNoConfig)
                      (dispatch (setVideoAnalyticsActive False)
                         (dispatch (setVideoAnalyticsLoading False) h))
                  else
                    (let videoRequests =
                           (if front \<noteq> [] then [(''front'', front)] else [])
                           @ (if back \<noteq> [] then [(''back'', back)] else [])
                           @ (if board \<noteq> [] then [(''content'', board)] else []);
                         h = dispatch (setVideoAnalyticsLoading True) h;
                         h = dispatch (setVideoStatus VideoStarting) h;
                         h = request (StartVideoAnalytics videoRequests sid) h
                     in case reply of
                          VideoRejected \<Rightarrow>
                            dispatch (setVideoStatus VideoFailed)
                              (dispatch (setVideoAnalyticsActive False) h)
                        | VideoNoResults \<Rightarrow> h
                        | VideoResults results \<Rightarrow>
                            (let h = store_header_streams results h
                             in if list_ex succeeded results then
                                  request (GetClassStatistics sid)
                                    (dispatch (setVideoStatus VideoStreaming)
                                       (dispatch (setActiveStream (Some AllStreams))
                                          (dispatch (setVideoAnalyticsActive True) h)))
                                else dispatch (setVideoStatus VideoFailed)
                                       (dispatch (setVideoAnalyticsActive False) h))))
         in dispatch (setVideoAnalyticsLoading False) h))"

text \<open>The \<open>catch\<close> block of the start branch; \<open>timer_was_set\<close> is the closure's timer.\<close>

definition start_failed :: "bool \<Rightarrow> Header \<Rightarrow> Header" where
  "start_failed timer_was_set h =
     (let h = h\<lparr>errorMsg := Some ''errors.failedToStartRecording''\<rparr>;
          h = dispatch processingFailed h;
          h = dispatch (setIsRecording False) h
      in if timer_was_set then request StopMonitoring (h\<lparr>monitoringTimer := False\<rparr>) else h)"

definition start_recording :: "Replies \<Rightarrow> UIState \<Rightarrow> bool \<Rightarrow> bool \<Rightarrow> Header \<Rightarrow> Header" where
  "start_recording replies c timer_was_set enabled h =
     (let h = h\<lparr>timer := 0\<rparr>;
          h = dispatch resetFlow h;
          h = dispatch_other ResetTranscript h;
          h = dispatch_other ResetSummary h;
          h = dispatch_other ClearMindmap h;
          h = dispatch (setJustStoppedRecording False) h;
          h = (if hasAudioDevices c then
                 dispatch (setAudioStatus AudioRecording)
                   (dispatch (setProcessingMode (Some Microphone)) (dispatch startProcessing h))
               else dispatch (setProcessingMode (Some VideoOnly)) h);
          h = request CreateSession h
      in case createSession_reply replies of
           None \<Rightarrow> start_failed timer_was_set h
         | Some sid \<Rightarrow>
             (let h = dispatch (setSessionId (Some sid)) h;
                  h = request (StartMonitoring sid) h;
                  h = (if startMonitoring_reply replies then h\<lparr>monitoringTimer := True\<rparr> else h);
                  h = (if hasAudioDevices c then
                         dispatch startTranscription (dispatch (setUploadedAudioPath MICROPHONE) h)
                       else h);
                  h = dispatch (setIsRecording True) h
              in if hasVideoCapability c then
                   startVideoAnalyticsInBackground (startVideoAnalytics_reply replies) enabled sid c h
                 else dispatch (setVideoStatus VideoNoConfig) h))"

definition handleRecordingToggle :: "Replies \<Rightarrow> Header \<Rightarrow> Header" where
  "handleRecordingToggle replies h =
     (if isRecordingDisabled h then h
      else
        (let c = ui h;
             next = (\<not> isRecording c);
             timer_was_set = monitoringTimer h;
             enabled = videoAnalyticsEnabled h;
             h = h\<lparr>errorMsg := None\<rparr>
         in if next then start_recording replies c timer_was_set enabled h
            else stop_recording replies c h))"

subsection \<open>Upload modal: applying the form\<close>

text \<open>
  A selected \<open>File\<close> is represented by its name; \<open>shouldAbort\<close> is
  \<open>shouldAbortRef.current\<close> and \<open>closed\<close> says whether \<open>onClose\<close> was called.
\<close>

record UploadFilesModal = App +
  audioFile :: "string option"
  frontCameraPath :: "string option"
  rearCameraPath :: "string option"
  boardCameraPath :: "string option"
  baseDirectory :: string
  error :: "string option"
  loading :: bool
  notification :: string
  shouldAbort :: bool
  closed :: bool

definition constructFilePath :: "string \<Rightarrow> string \<Rightarrow> string" where
  "constructFilePath base fileName =
     (let normalizedBaseDirectory =
            (if base \<noteq> [] \<and> last base = CHR 0x5C then base else base @ [CHR 0x5C])
      in normalizedBaseDirectory @ fileName)"

fun store_streams :: "PipelineResult list \<Rightarrow> UploadFilesModal \<Rightarrow> UploadFilesModal" where
  "store_streams [] m = m"
| "store_streams (r # rs) m =
     store_streams rs (if succeeded r then dispatch (store_stream r) m else m)"

definition startVideoAnalyticsWithSession ::
  "PipelineResult list option \<Rightarrow> string \<Rightarrow> (string \<times> string) list \<Rightarrow> UploadFilesModal
     \<Rightarrow> UploadFilesModal \<times> bool" where
  "startVideoAnalyticsWithSession reply sid pipelines m =
     (if pipelines = [] then
        (dispatch (setVideoStatus VideoNoConfig)
           (dispatch (setVideoAnalyticsActive False) (dispatch (setVideoAnalyticsLoading False) m)),
         False)
      else
        (let m = dispatch startStream m;
             m = dispatch (setVideoAnalyticsLoading True) m;
             m = dispatch (setVideoStatus VideoStarting) m;
             m = request (StartVideoAnalyticsPipeline pipelines sid) m
         in case reply of
              None \<Rightarrow>
                (dispatch (setVideoStatus VideoFailed)
                   (dispatch (setVideoAnalyticsActive False)
                      (dispatch (setVideoAnalyticsLoading False) m)),
                 False)
            | Some results \<Rightarrow>
                (let hasSuccessfulStreams = list_ex succeeded results;
                     m = store_streams results m;
                     m = (if hasSuccessfulStreams
                          then dispatch (setVideoStatus VideoStreaming)
                                 (dispatch (setVideoAnalyticsActive True)
                                    (dispatch (setActiveStream (Some AllStreams)) m))
                          else dispatch (setVideoStatus VideoFailed) m);
                     m = dispatch (setVideoAnalyticsLoading False) m;
                     m = (if hasSuccessfulStreams then request (GetClassStatistics sid) m else m)
                 in (m, hasSuccessfulStreams))))"

definition getProcessingNotification :: "bool \<Rightarrow> bool \<Rightarrow> string" where
  "getProcessingNotification hasAudio hasVideo =
     (if hasAudio \<and> hasVideo then ''Starting video analytics and transcription...''
      else if hasAudio \<and> \<not> hasVideo then ''Starting transcription...''
      else if \<not> hasAudio \<and> hasVideo then ''Starting video analytics...''
      else ''Starting processing...'')"

definition getSuccessNotification :: "bool \<Rightarrow> bool \<Rightarrow> bool \<Rightarrow> string" where
  "getSuccessNotification hasAudio hasVideo videoStarted =
     (let audioSuccess = hasAudio; videoSuccess = (hasVideo \<and> videoStarted)
      in if audioSuccess \<and> videoSuccess
           then ''Transcription and video analytics started successfully.''
         else if audioSuccess \<and> \<not> videoSuccess \<and> hasVideo
           then ''Transcription started successfully. Video analytics failed to start.''
         else if audioSuccess \<and> \<not> hasVideo then ''Transcription started successfully.''
         else if \<not> audioSuccess \<and> videoSuccess then ''Video analytics started successfully.''
         else if \<not> audioSuccess \<and> \<not> videoSuccess \<and> hasVideo
           then ''Failed to start video analytics.''
         else ''No valid processing started.'')"

text \<open>The \<open>catch\<close> block of \<open>handleApply\<close>.\<close>

definition apply_failed :: "UploadFilesModal \<Rightarrow> UploadFilesModal" where
  "apply_failed m =
     (dispatch processingFailed
        (m\<lparr>error := Some ''Failed during processing. Please try again.'', notification := []\<rparr>))
     \<lparr>loading := False\<rparr>"

text \<open>The part of the \<open>try\<close> block after the audio upload, with the uploaded path.\<close>

definition apply_video :: "Replies \<Rightarrow> string \<Rightarrow> string \<Rightarrow> UploadFilesModal \<Rightarrow> UploadFilesModal" where
  "apply_video replies sid audioPath m =
     (let hasAudioFile = (audioFile m \<noteq> None);
          full = (\<lambda>f. case f of Some n \<Rightarrow> constructFilePath (baseDirectory m) n | None \<Rightarrow> []);
          allPipelines =
            [(''front'', full (frontCameraPath m)), (''back'', full (rearCameraPath m)),
             (''content'', full (boardCameraPath m))];
          validPipelines = filter (\<lambda>p. snd p \<noteq> [] \<and> trim (snd p) \<noteq> []) allPipelines;
          hasValidVideo = (length validPipelines > 0);
          m = dispatch (setHasUploadedVideoFiles hasValidVideo) m;
          m = m\<lparr>notification := getProcessingNotification hasAudioFile hasValidVideo\<rparr>;
          m = dispatch (setVideoStatus (if hasValidVideo then VideoStarting else VideoNoConfig)) m;
          (m, videoAnalyticsStarted) =
            (if hasValidVideo then
               (let (m, started) =
                      startVideoAnalyticsWithSession (startVideoAnalyticsPipeline_reply replies)
                        sid validPipelines m
                in (if started then m else dispatch (setVideoStatus VideoFailed) m, started))
             else (m, False));
          m = (if hasAudioFile \<and> audioPath \<noteq> [] then request (StreamTranscript audioPath sid) m
               else m);
          m = m\<lparr>notification :=
                  getSuccessNotification hasAudioFile hasValidVideo videoAnalyticsStarted\<rparr>
      in m\<lparr>shouldAbort := False, loading := False, closed := True\<rparr>)"

definition handleApply :: "Replies \<Rightarrow> UploadFilesModal \<Rightarrow> UploadFilesModal" where
  "handleApply replies m =
     (let hasAudioFile = (audioFile m \<noteq> None);
          hasVideoFiles =
            (frontCameraPath m \<noteq> None \<or> rearCameraPath m \<noteq> None \<or> boardCameraPath m \<noteq> None)
      in if \<not> hasAudioFile \<and> \<not> hasVideoFiles then
           m\<lparr>error := Some ''At least one file (audio or video) is required.''\<rparr>
         else
           (let m = m\<lparr>notification := ''Starting processing...''\<rparr>;
                m = dispatch resetFlow m;
                m = dispatch_other ResetTranscript m;
                m = dispatch_other ResetSummary m;
                m = dispatch_other ClearMindmap m;
                m = dispatch startProcessing m;
                m = dispatch (setAudioStatus (if hasAudioFile then AudioProcessing
                                              else AudioNoDevices)) m;
                m = m\<lparr>loading := True, error := None\<rparr>;
                m = m\<lparr>notification := ''Creating session...''\<rparr>;
                m = request CreateSession m
            in case createSession_reply replies of
                 None \<Rightarrow> apply_failed m
               | Some sid \<Rightarrow>
                   (let m = dispatch (setSessionId (Some sid)) m;
                        m = request (StartMonitoring sid) m;
                        m = (if startMonitoring_reply replies then m\<lparr>monitoringTimer := True\<rparr>
                             else m)
                    in case audioFile m of
                         None \<Rightarrow>
                           apply_video replies sid [] (dispatch (setProcessingMode (Some VideoOnly)) m)
                       | Some file \<Rightarrow>
                           (let m = m\<lparr>notification := ''Uploading...''\<rparr>;
                                m = request (UploadAudio file) m
                            in case uploadAudio_reply replies of
                                 None \<Rightarrow> apply_failed m
                               | Some path \<Rightarrow>
                                   apply_video replies sid path
                                     (dispatch (setProcessingMode (Some Audio))
                                        (dispatch (setUploadedAudioPath path) m))))))"

text \<open>
  Concrete inputs: an idle header as it is after the device probe, an upload form with
  nothing selected, a backend that accepts every request, and the header of a running
  microphone recording, which is what the record control makes of the idle header.
\<close>

definition idle_header :: "bool \<Rightarrow> string \<Rightarrow> Header" where
  "idle_header microphone camera =
     \<lparr>ui = setHasAudioDevices microphone (initialState\<lparr>frontCamera := camera\<rparr>),
      dispatched = [], requests = [], monitoringTimer = False, errorMsg = None, timer = 0,
      videoAnalyticsEnabled = True, transcriptStatus = ''idle'',
      mindmapIsLoading = False, mindmapFinalText = None\<rparr>"

definition empty_form :: UploadFilesModal where
  "empty_form =
     \<lparr>ui = initialState, dispatched = [], requests = [], monitoringTimer = False,
      audioFile = None, frontCameraPath = None, rearCameraPath = None, boardCameraPath = None,
      baseDirectory = ''C:'', error = None, loading = False, notification = [],
      shouldAbort = True, closed = False\<rparr>"

definition all_accepted :: Replies where
  "all_accepted =
     \<lparr>createSession_reply = Some ''s1'', startMonitoring_reply = True,
      startVideoAnalytics_reply = VideoResults [], stopMicrophone_reply = True,
      stopVideoAnalytics_reply = True, uploadAudio_reply = Some ''/uploads/a.wav'',
      startVideoAnalyticsPipeline_reply = Some []\<rparr>"

definition microphone_recording :: Header where
  "microphone_recording = handleRecordingToggle all_accepted (idle_header True [])"

section \<open>Bootstrap scripts (setup.sh of the two agents)\<close>

text \<open>
  A shell is its variables and the set of names marked for export. A variable can be unset
  (\<open>None\<close>), set to the empty string, or set to a value; the expansions below are the ones
  the scripts use.
\<close>

record shell =
  vars :: "string \<rightharpoonup> string"
  exported :: "string set"

text \<open>\<open>$NAME\<close>: the value, empty when unset.\<close>

definition expand :: "shell \<Rightarrow> string \<Rightarrow> string" where
  "expand sh n = (case vars sh n of Some v \<Rightarrow> v | None \<Rightarrow> [])"

text \<open>\<open>${NAME:-word}\<close>: \<open>word\<close> when the variable is unset or empty.\<close>

definition expand_default :: "shell \<Rightarrow> string \<Rightarrow> string \<Rightarrow> string" where
  "expand_default sh n word =
     (case vars sh n of None \<Rightarrow> word | Some v \<Rightarrow> if v = [] then word else v)"

text \<open>\<open>${NAME%/}\<close> on a value: the shortest suffix matching \<open>/\<close> is removed, at most one slash.\<close>

definition strip_slash :: "string \<Rightarrow> string" where
  "strip_slash v = (if v \<noteq> [] \<and> last v = CHR ''/'' then butlast v else v)"

text \<open>\<open>export NAME=value\<close>.\<close>

definition export_var :: "string \<Rightarrow> string \<Rightarrow> shell \<Rightarrow> shell" where
  "export_var n v sh = sh\<lparr>vars := (vars sh)(n \<mapsto> v), exported := insert n (exported sh)\<rparr>"

text \<open>\<open>export NAME=${NAME:-word}\<close>.\<close>

definition export_default :: "string \<Rightarrow> string \<Rightarrow> shell \<Rightarrow> shell" where
  "export_default n word sh = export_var n (expand_default sh n word) sh"

text \<open>\<open>[[ $a != *"$b"* ]]\<close> is false exactly when \<open>b\<close> occurs in \<open>a\<close>.\<close>

fun starts_with :: "string \<Rightarrow> string \<Rightarrow> bool" where
  "starts_with s [] = True"
| "starts_with [] (c # p) = False"
| "starts_with (d # s) (c # p) = (d = c \<and> starts_with s p)"

fun occurs_in :: "string \<Rightarrow> string \<Rightarrow> bool" where
  "occurs_in p [] = (p = [])"
| "occurs_in p (c # s) = (starts_with (c # s) p \<or> occurs_in p s)"

subsection \<open>Route-planning agent\<close>

text \<open>Lines 83 to 95: the registry path from the base URL and the project name.\<close>

definition compose_registry :: "string \<Rightarrow> string \<Rightarrow> string" where
  "compose_registry registry_url project_name =
     (if registry_url \<noteq> [] \<and> project_name \<noteq> []
        then strip_slash registry_url @ ''/'' @ strip_slash project_name @ ''/''
      else if registry_url \<noteq> [] then strip_slash registry_url @ ''/''
      else if project_name \<noteq> [] then strip_slash project_name @ ''/''
      else [])"

text \<open>
  Lines 70 to 77: the host address, and its entry in \<open>no_proxy\<close>. \<open>ip_route\<close> is what
  the command substitution \<open>$(ip route get 1 | awk '{print $7}')\<close> yields.
\<close>

definition detect_host_ip :: "string \<Rightarrow> shell \<Rightarrow> shell" where
  "detect_host_ip ip_route sh =
     (let sh = export_var ''HOST_IP'' ip_route sh;
          sh = (if expand sh ''HOST_IP'' = [] then export_var ''HOST_IP'' ''127.0.0.1'' sh else sh)
      in if \<not> occurs_in (expand sh ''HOST_IP'') (expand sh ''no_proxy'')
         then export_var ''no_proxy'' (expand sh ''no_proxy'' @ '','' @ expand sh ''HOST_IP'') sh
         else sh)"

text \<open>Lines 70 to 111, the exports.\<close>

definition route_environment :: "string \<Rightarrow> shell \<Rightarrow> shell" where
  "route_environment ip_route sh =
     (let sh = detect_host_ip ip_route sh;
          sh = export_default ''TAG'' ''latest'' sh;
          sh = export_default ''REGISTRY_URL'' ''intel'' sh;
          sh = export_default ''PROJECT_NAME'' [] sh;
          sh = export_var ''REGISTRY''
                 (compose_registry (expand sh ''REGISTRY_URL'') (expand sh ''PROJECT_NAME'')) sh;
          sh = export_default ''TRAFFIC_BUFFER_DURATION'' ''60'' sh;
          sh = export_default ''LOG_LEVEL'' ''INFO'' sh;
          sh = export_default ''DATA_RETENTION_HOURS'' ''24'' sh;
          sh = export_default ''HEALTH_CHECK_INTERVAL'' ''30s'' sh;
          sh = export_default ''HEALTH_CHECK_TIMEOUT'' ''10s'' sh;
          sh = export_default ''HEALTH_CHECK_RETRIES'' ''3'' sh;
          sh = export_default ''HEALTH_CHECK_START_PERIOD'' ''10s'' sh;
          sh = export_default ''AI_ROUTE_PLANNER_PORT'' ''7864'' sh
      in export_default ''AI_ROUTE_PLANNER_DIR'' ''ai-route-planner'' sh)"

text \<open>
  The script as far as the shell's variables go: with no argument, with \<open>help\<close>, or with
  more than one argument it returns before the exports; the container commands that follow
  the exports leave the variables alone.
\<close>

definition route_setup :: "string list \<Rightarrow> string \<Rightarrow> shell \<Rightarrow> shell" where
  "route_setup args ip_route sh =
     (if length args = 0 \<or> hd args = ''help'' then sh
      else if length args > 1 then sh
      else route_environment ip_route sh)"

text \<open>The variables the route-planning script gives a default with \<open>${NAME:-word}\<close>.\<close>

definition route_defaults :: "(string \<times> string) list" where
  "route_defaults =
     [(''TAG'', ''latest''), (''REGISTRY_URL'', ''intel''), (''PROJECT_NAME'', []),
      (''TRAFFIC_BUFFER_DURATION'', ''60''), (''LOG_LEVEL'', ''INFO''),
      (''DATA_RETENTION_HOURS'', ''24''), (''HEALTH_CHECK_INTERVAL'', ''30s''),
      (''HEALTH_CHECK_TIMEOUT'', ''10s''), (''HEALTH_CHECK_RETRIES'', ''3''),
      (''HEALTH_CHECK_START_PERIOD'', ''10s''), (''AI_ROUTE_PLANNER_PORT'', ''7864''),
      (''AI_ROUTE_PLANNER_DIR'', ''ai-route-planner'')]"

text \<open>A registry path has a duplicate separator when two slashes follow each other.\<close>

fun double_slash :: "string \<Rightarrow> bool" where
  "double_slash (a # b # s) = ((a = CHR ''/'' \<and> b = CHR ''/'') \<or> double_slash (b # s))"
| "double_slash [a] = False"
| "double_slash [] = False"

subsection \<open>Traffic-intersection agent\<close>

text \<open>
  Lines 252 to 300, the exports that every invocation reaches once the arguments are accepted
  and the prerequisites are in place. The three group identifiers are what \<open>id -g\<close> and the
  two \<open>getent\<close> pipelines print.
\<close>

definition agent_environment :: "string \<Rightarrow> string \<Rightarrow> string \<Rightarrow> shell \<Rightarrow> shell" where
  "agent_environment user_gid video_gid render_gid sh =
     (let sh = export_default ''TAG'' ''latest'' sh;
          sh = export_default ''REGISTRY'' [] sh;
          sh = export_default ''TRAFFIC_INTELLIGENCE_PORT'' ''8081'' sh;
          sh = export_default ''TRAFFIC_INTELLIGENCE_UI_PORT'' ''7860'' sh;
          sh = export_default ''REFRESH_INTERVAL'' ''15'' sh;
          sh = export_var ''USER_GROUP_ID'' user_gid sh;
          sh = export_var ''VIDEO_GROUP_ID'' video_gid sh;
          sh = export_var ''RENDER_GROUP_ID'' render_gid sh;
          sh = export_default ''TRAFFIC_BUFFER_DURATION'' ''60'' sh;
          sh = export_default ''LOG_LEVEL'' ''INFO'' sh;
          sh = export_default ''DATA_RETENTION_HOURS'' ''24'' sh;
          sh = export_default ''VLM_SERVICE_PORT'' ''9764'' sh;
          sh = export_default ''VLM_MODEL_NAME'' ''microsoft/Phi-3.5-vision-instruct'' sh;
          sh = export_default ''VLM_TIMEOUT_SECONDS'' ''300'' sh;
          sh = export_default ''VLM_MAX_COMPLETION_TOKENS'' ''1500'' sh;
          sh = export_default ''VLM_TEMPERATURE'' ''0.1'' sh;
          sh = export_default ''VLM_TOP_P'' ''0.1'' sh;
          sh = export_default ''VLM_DEVICE'' ''CPU'' sh;
          sh = export_default ''VLM_COMPRESSION_WEIGHT_FORMAT'' ''int8'' sh;
          sh = export_default ''VLM_SEED'' ''42'' sh;
          sh = export_default ''VLM_WORKERS'' ''1'' sh;
          sh = export_default ''VLM_LOG_LEVEL'' ''info'' sh;
          sh = export_default ''VLM_ACCESS_LOG_FILE'' ''/dev/null'' sh;
          sh = (if expand sh ''VLM_DEVICE'' = ''GPU''
                then export_var ''VLM_WORKERS'' ''1''
                       (export_var ''VLM_COMPRESSION_WEIGHT_FORMAT'' ''int4'' sh)
                else sh);
          sh = export_default ''HEALTH_CHECK_INTERVAL'' ''30s'' sh;
          sh = export_default ''HEALTH_CHECK_TIMEOUT'' ''10s'' sh;
          sh = export_default ''HEALTH_CHECK_RETRIES'' ''3'' sh;
          sh = export_default ''HEALTH_CHECK_START_PERIOD'' ''10s'' sh
      in export_var ''no_proxy_env'' (expand sh ''no_proxy'') sh)"

text \<open>
  The variables the intersection script gives a default with \<open>${NAME:-word}\<close> and does not
  assign again.
\<close>

definition agent_defaults :: "(string \<times> string) list" where
  "agent_defaults =
     [(''TAG'', ''latest''), (''REGISTRY'', []), (''TRAFFIC_INTELLIGENCE_PORT'', ''8081''),
      (''TRAFFIC_INTELLIGENCE_UI_PORT'', ''7860''), (''REFRESH_INTERVAL'', ''15''),
      (''TRAFFIC_BUFFER_DURATION'', ''60''), (''LOG_LEVEL'', ''INFO''),
      (''DATA_RETENTION_HOURS'', ''24''), (''VLM_SERVICE_PORT'', ''9764''),
      (''VLM_MODEL_NAME'', ''microsoft/Phi-3.5-vision-instruct''),
      (''VLM_TIMEOUT_SECONDS'', ''300''), (''VLM_MAX_COMPLETION_TOKENS'', ''1500''),
      (''VLM_TEMPERATURE'', ''0.1''), (''VLM_TOP_P'', ''0.1''), (''VLM_DEVICE'', ''CPU''),
      (''VLM_SEED'', ''42''), (''VLM_LOG_LEVEL'', ''info''),
      (''VLM_ACCESS_LOG_FILE'', ''/dev/null''), (''HEALTH_CHECK_INTERVAL'', ''30s''),
      (''HEALTH_CHECK_TIMEOUT'', ''10s''), (''HEALTH_CHECK_RETRIES'', ''3''),
      (''HEALTH_CHECK_START_PERIOD'', ''10s'')]"

text \<open>Shells used as concrete inputs: nothing set, and single variables set beforehand.\<close>

definition empty_shell :: shell where
  "empty_shell = \<lparr>vars = Map.empty, exported = {}\<rparr>"

definition preset :: "string \<Rightarrow> string \<Rightarrow> shell \<Rightarrow> shell" where
  "preset n v sh = export_var n v sh"

section \<open>Properties of the image time-synchronizer\<close>

lemma resolve_done: "queue_rgb s = [] \<or> queue_depth s = [] \<Longrightarrow> resolve s = s"
  by (subst resolve.simps) simp

lemma resolve_unfold:
  "queue_rgb s \<noteq> [] \<Longrightarrow> queue_depth s \<noteq> [] \<Longrightarrow> resolve s = resolve (resolve_body s)"
  by (subst resolve.simps) simp

lemma unat_offset: "unat a + n = unat b \<Longrightarrow> b = a + word_of_nat n"
  for a b :: "'a::len word"
  by (metis of_nat_add of_nat_unat unsigned_word_eqI word_unat_eq_iff unat_of_nat ucast_id)

lemma sint_of_nat_small: "n < 2 ^ 63 \<Longrightarrow> sint (word_of_nat n :: u64) = int n"
  by (simp add: signed_of_nat signed_take_bit_int_eq_self)

lemma sint_neg_of_nat_small: "n < 2 ^ 63 \<Longrightarrow> sint (- word_of_nat n :: u64) = - int n"
proof -
  assume n: "n < 2 ^ 63"
  have "(- word_of_nat n :: u64) = word_of_int (- int n)" by simp
  then have "sint (- word_of_nat n :: u64) = signed_take_bit 63 (- int n)"
    by (simp only: signed_of_int) simp
  also have "\<dots> = - int n"
    using n by (intro signed_take_bit_int_eq_self) auto
  finally show ?thesis .
qed

lemma abs_long_diff_offset:
  assumes "n < 2 ^ 63"
  shows "abs_long_diff a (a + word_of_nat n) = word_of_nat n"
    and "abs_long_diff (a + word_of_nat n) a = word_of_nat n"
  using assms by (simp_all add: abs_long_diff_def sint_of_nat_small sint_neg_of_nat_small)

lemma word_of_nat_less_small:
  "n < 2 ^ 64 \<Longrightarrow> m < 2 ^ 64 \<Longrightarrow> (word_of_nat n :: u64) < word_of_nat m \<longleftrightarrow> n < m"
  by (simp add: word_less_nat_alt unat_of_nat)

lemma pair_heads_Cons:
  "queue_rgb s = (tr, kr) # qr \<Longrightarrow> queue_depth s = (td, kd) # qd \<Longrightarrow>
   pair_heads s =
     s\<lparr>calls := calls s @ [(snd (map_at (rgb_map s) kr), snd (map_at (depth_map s) kd))],
       rgb_map := (rgb_map s)(kr := None),
       depth_map := (depth_map s)(kd := None),
       queue_rgb := qr, queue_depth := qd\<rparr>"
  by (simp add: pair_heads_def map_at_def map_erase_def split: option.splits)

lemma drop_rgb_head_Cons:
  "queue_rgb s = (tr, kr) # qr \<Longrightarrow>
   drop_rgb_head s = s\<lparr>rgb_map := (rgb_map s)(kr := None), queue_rgb := qr\<rparr>"
  by (simp add: drop_rgb_head_def map_at_def map_erase_def split: option.splits)

lemma drop_depth_head_Cons:
  "queue_depth s = (td, kd) # qd \<Longrightarrow>
   drop_depth_head s = s\<lparr>depth_map := (depth_map s)(kd := None), queue_depth := qd\<rparr>"
  by (simp add: drop_depth_head_def map_at_def map_erase_def split: option.splits)

lemma resolve_close_heads:
  assumes "queue_rgb s = (tr, kr) # qr" "queue_depth s = (td, kd) # qd"
    and "abs_long_diff tr td < acceptable_synchronization_error_nanoseconds"
  shows "resolve s = resolve (pair_heads s)"
  using assms by (simp add: resolve_unfold resolve_body_def)

lemma resolve_far_rgb_older:
  assumes "queue_rgb s = (tr, kr) # qr" "queue_depth s = (td, kd) # qd"
    and "\<not> abs_long_diff tr td < acceptable_synchronization_error_nanoseconds" "tr < td"
  shows "resolve s = resolve (drop_rgb_head s)"
  using assms by (simp add: resolve_unfold resolve_body_def)

lemma resolve_far_depth_older:
  assumes "queue_rgb s = (tr, kr) # qr" "queue_depth s = (td, kd) # qd"
    and "\<not> abs_long_diff tr td < acceptable_synchronization_error_nanoseconds" "\<not> tr < td"
  shows "resolve s = resolve (drop_depth_head s)"
  using assms by (simp add: resolve_unfold resolve_body_def)

text \<open>
  Claim C1. When both queues are non-empty, \<open>resolve\<close> looks at the two tops. If their
  timestamps are 5 ms (5000000 ns) apart, it calls the callback with the two stored pointers,
  erases both keys, pops both queues and goes on with the remaining state. If they are 15 ms
  apart, it makes no call, erases and pops the top with the smaller timestamp, and goes on.
\<close>

theorem resolve_5ms_15ms:
  assumes "queue_rgb s = (tr, kr) # qr" and "queue_depth s = (td, kd) # qd"
  shows "((unat tr + 5000000 = unat td \<or> unat td + 5000000 = unat tr) \<longrightarrow>
            resolve s =
              resolve (s\<lparr>calls := calls s @
                              [(snd (map_at (rgb_map s) kr), snd (map_at (depth_map s) kd))],
                          rgb_map := (rgb_map s)(kr := None),
                          depth_map := (depth_map s)(kd := None),
                          queue_rgb := qr, queue_depth := qd\<rparr>)) \<and>
         (unat tr + 15000000 = unat td \<longrightarrow>
            resolve s = resolve (s\<lparr>rgb_map := (rgb_map s)(kr := None), queue_rgb := qr\<rparr>)) \<and>
         (unat td + 15000000 = unat tr \<longrightarrow>
            resolve s = resolve (s\<lparr>depth_map := (depth_map s)(kd := None), queue_depth := qd\<rparr>))"
proof (intro conjI impI)
  assume "unat tr + 5000000 = unat td \<or> unat td + 5000000 = unat tr"
  then have "td = tr + word_of_nat 5000000 \<or> tr = td + word_of_nat 5000000"
    by (auto dest: unat_offset)
  then have "abs_long_diff tr td = 5000000"
    using abs_long_diff_offset [of 5000000] by auto
  then have "abs_long_diff tr td < acceptable_synchronization_error_nanoseconds"
    by (simp add: acceptable_synchronization_error_nanoseconds_def)
  then show "resolve s =
              resolve (s\<lparr>calls := calls s @
                              [(snd (map_at (rgb_map s) kr), snd (map_at (depth_map s) kd))],
                          rgb_map := (rgb_map s)(kr := None),
                          depth_map := (depth_map s)(kd := None),
                          queue_rgb := qr, queue_depth := qd\<rparr>)"
    using assms by (simp add: resolve_close_heads [OF assms] pair_heads_Cons [OF assms])
next
  assume d: "unat tr + 15000000 = unat td"
  then have "td = tr + word_of_nat 15000000" by (rule unat_offset)
  then have "abs_long_diff tr td = 15000000"
    using abs_long_diff_offset(1) [of 15000000 tr] by simp
  then have far: "\<not> abs_long_diff tr td < acceptable_synchronization_error_nanoseconds"
    by (simp add: acceptable_synchronization_error_nanoseconds_def)
  have "tr < td" using d by (simp add: word_less_nat_alt)
  with far show "resolve s = resolve (s\<lparr>rgb_map := (rgb_map s)(kr := None), queue_rgb := qr\<rparr>)"
    by (simp add: resolve_far_rgb_older [OF assms] drop_rgb_head_Cons [OF assms(1)])
next
  assume d: "unat td + 15000000 = unat tr"
  then have "tr = td + word_of_nat 15000000" by (rule unat_offset)
  then have "abs_long_diff tr td = 15000000"
    using abs_long_diff_offset(2) [of 15000000 td] by simp
  then have far: "\<not> abs_long_diff tr td < acceptable_synchronization_error_nanoseconds"
    by (simp add: acceptable_synchronization_error_nanoseconds_def)
  have "\<not> tr < td" using d by (simp add: word_less_nat_alt)
  with far show "resolve s = resolve (s\<lparr>depth_map := (depth_map s)(kd := None), queue_depth := qd\<rparr>)"
    by (simp add: resolve_far_depth_older [OF assms] drop_depth_head_Cons [OF assms(2)])
qed

theorem resolve_5ms_15ms_witness:
  "calls (resolve \<lparr>counter = 2, rgb_map = [0 \<mapsto> Some \<lparr>stamp_sec = 0, stamp_nanosec = 0, pixels = ''c''\<rparr>],
            depth_map = [1 \<mapsto> Some \<lparr>stamp_sec = 0, stamp_nanosec = 5000000, pixels = ''d''\<rparr>],
            queue_rgb = [(0, 0)], queue_depth = [(5000000, 1)], calls = []\<rparr>)
     = [(Some \<lparr>stamp_sec = 0, stamp_nanosec = 0, pixels = ''c''\<rparr>,
         Some \<lparr>stamp_sec = 0, stamp_nanosec = 5000000, pixels = ''d''\<rparr>)]
   \<and> resolve \<lparr>counter = 2, rgb_map = [0 \<mapsto> Some \<lparr>stamp_sec = 0, stamp_nanosec = 0, pixels = ''c''\<rparr>],
            depth_map = [1 \<mapsto> Some \<lparr>stamp_sec = 0, stamp_nanosec = 15000000, pixels = ''d''\<rparr>],
            queue_rgb = [(0, 0)], queue_depth = [(15000000, 1)], calls = []\<rparr>
     = \<lparr>counter = 2, rgb_map = Map.empty,
            depth_map = [1 \<mapsto> Some \<lparr>stamp_sec = 0, stamp_nanosec = 15000000, pixels = ''d''\<rparr>],
            queue_rgb = [], queue_depth = [(15000000, 1)], calls = []\<rparr>"
  using resolve_5ms_15ms [of "\<lparr>counter = 2, rgb_map = [0 \<mapsto> Some \<lparr>stamp_sec = 0, stamp_nanosec = 0, pixels = ''c''\<rparr>],
            depth_map = [1 \<mapsto> Some \<lparr>stamp_sec = 0, stamp_nanosec = 5000000, pixels = ''d''\<rparr>],
            queue_rgb = [(0, 0)], queue_depth = [(5000000, 1)], calls = []\<rparr>" 0 0 "[]" 5000000 1 "[]"]
    resolve_5ms_15ms [of "\<lparr>counter = 2, rgb_map = [0 \<mapsto> Some \<lparr>stamp_sec = 0, stamp_nanosec = 0, pixels = ''c''\<rparr>],
            depth_map = [1 \<mapsto> Some \<lparr>stamp_sec = 0, stamp_nanosec = 15000000, pixels = ''d''\<rparr>],
            queue_rgb = [(0, 0)], queue_depth = [(15000000, 1)], calls = []\<rparr>" 0 0 "[]" 15000000 1 "[]"]
  by (simp add: resolve_done map_at_def)

text \<open>
  Claim C2, as stated, fails: a colour frame stamped 0 ns and a depth frame stamped exactly
  10000000 ns later are not paired. No callback is made, the colour frame is dropped and the
  depth frame stays queued.
\<close>

theorem boundary_not_paired:
  "run [Rgb \<lparr>stamp_sec = 0, stamp_nanosec = 0, pixels = ''c''\<rparr>,
        Depth \<lparr>stamp_sec = 0, stamp_nanosec = 10000000, pixels = ''d''\<rparr>]
   = \<lparr>counter = 2, rgb_map = Map.empty,
      depth_map = [1 \<mapsto> Some \<lparr>stamp_sec = 0, stamp_nanosec = 10000000, pixels = ''d''\<rparr>],
      queue_rgb = [], queue_depth = [(10000000, 1)],
      calls = []\<rparr>"
  by (simp add: run_def new_ImageSync_def callback_rgb_def callback_depth_def nanoseconds_of_def
      resolve.simps resolve_body_def abs_long_diff_def acceptable_synchronization_error_nanoseconds_def
      pair_heads_def drop_rgb_head_def drop_depth_head_def map_at_def map_erase_def)

text \<open>
  Claim C2, amended. The comparison is strict: tops whose timestamps differ by less than
  10000000 ns are paired; at a difference of exactly 10000000 ns no callback is made and the
  top with the smaller timestamp is erased and popped.
\<close>

theorem resolve_strict_tolerance:
  assumes "queue_rgb s = (tr, kr) # qr" and "queue_depth s = (td, kd) # qd"
  shows "((unat tr + d = unat td \<or> unat td + d = unat tr) \<and> d < 10000000 \<longrightarrow>
            resolve s =
              resolve (s\<lparr>calls := calls s @
                              [(snd (map_at (rgb_map s) kr), snd (map_at (depth_map s) kd))],
                          rgb_map := (rgb_map s)(kr := None),
                          depth_map := (depth_map s)(kd := None),
                          queue_rgb := qr, queue_depth := qd\<rparr>)) \<and>
         (unat tr + 10000000 = unat td \<longrightarrow>
            resolve s = resolve (s\<lparr>rgb_map := (rgb_map s)(kr := None), queue_rgb := qr\<rparr>)) \<and>
         (unat td + 10000000 = unat tr \<longrightarrow>
            resolve s = resolve (s\<lparr>depth_map := (depth_map s)(kd := None), queue_depth := qd\<rparr>))"
proof (intro conjI impI)
  assume a: "(unat tr + d = unat td \<or> unat td + d = unat tr) \<and> d < 10000000"
  then have "td = tr + word_of_nat d \<or> tr = td + word_of_nat d"
    by (auto dest: unat_offset)
  moreover have "d < 2 ^ 63" using a by simp
  ultimately have "abs_long_diff tr td = word_of_nat d"
    using abs_long_diff_offset [of d] by auto
  moreover have "(word_of_nat d :: u64) < 10000000"
    using a word_of_nat_less_small [of d 10000000] by simp
  ultimately have "abs_long_diff tr td < acceptable_synchronization_error_nanoseconds"
    by (simp add: acceptable_synchronization_error_nanoseconds_def)
  then show "resolve s =
              resolve (s\<lparr>calls := calls s @
                              [(snd (map_at (rgb_map s) kr), snd (map_at (depth_map s) kd))],
                          rgb_map := (rgb_map s)(kr := None),
                          depth_map := (depth_map s)(kd := None),
                          queue_rgb := qr, queue_depth := qd\<rparr>)"
    using assms by (simp add: resolve_close_heads [OF assms] pair_heads_Cons [OF assms])
next
  assume d: "unat tr + 10000000 = unat td"
  then have "td = tr + word_of_nat 10000000" by (rule unat_offset)
  then have "abs_long_diff tr td = 10000000"
    using abs_long_diff_offset(1) [of 10000000 tr] by simp
  then have far: "\<not> abs_long_diff tr td < acceptable_synchronization_error_nanoseconds"
    by (simp add: acceptable_synchronization_error_nanoseconds_def)
  have "tr < td" using d by (simp add: word_less_nat_alt)
  with far show "resolve s = resolve (s\<lparr>rgb_map := (rgb_map s)(kr := None), queue_rgb := qr\<rparr>)"
    by (simp add: resolve_far_rgb_older [OF assms] drop_rgb_head_Cons [OF assms(1)])
next
  assume d: "unat td + 10000000 = unat tr"
  then have "tr = td + word_of_nat 10000000" by (rule unat_offset)
  then have "abs_long_diff tr td = 10000000"
    using abs_long_diff_offset(2) [of 10000000 td] by simp
  then have far: "\<not> abs_long_diff tr td < acceptable_synchronization_error_nanoseconds"
    by (simp add: acceptable_synchronization_error_nanoseconds_def)
  have "\<not> tr < td" using d by (simp add: word_less_nat_alt)
  with far show "resolve s = resolve (s\<lparr>depth_map := (depth_map s)(kd := None), queue_depth := qd\<rparr>)"
    by (simp add: resolve_far_depth_older [OF assms] drop_depth_head_Cons [OF assms(2)])
qed

theorem resolve_strict_tolerance_witness:
  "resolve \<lparr>counter = 2, rgb_map = [0 \<mapsto> Some \<lparr>stamp_sec = 0, stamp_nanosec = 0, pixels = ''c''\<rparr>],
            depth_map = [1 \<mapsto> Some \<lparr>stamp_sec = 0, stamp_nanosec = 9999999, pixels = ''d''\<rparr>],
            queue_rgb = [(0, 0)], queue_depth = [(9999999, 1)], calls = []\<rparr>
     = \<lparr>counter = 2, rgb_map = Map.empty, depth_map = Map.empty,
            queue_rgb = [], queue_depth = [],
            calls = [(Some \<lparr>stamp_sec = 0, stamp_nanosec = 0, pixels = ''c''\<rparr>,
                      Some \<lparr>stamp_sec = 0, stamp_nanosec = 9999999, pixels = ''d''\<rparr>)]\<rparr>
   \<and> resolve \<lparr>counter = 2, rgb_map = [1 \<mapsto> Some \<lparr>stamp_sec = 0, stamp_nanosec = 10000000, pixels = ''c''\<rparr>],
            depth_map = [0 \<mapsto> Some \<lparr>stamp_sec = 0, stamp_nanosec = 0, pixels = ''d''\<rparr>],
            queue_rgb = [(10000000, 1)], queue_depth = [(0, 0)], calls = []\<rparr>
     = \<lparr>counter = 2, rgb_map = [1 \<mapsto> Some \<lparr>stamp_sec = 0, stamp_nanosec = 10000000, pixels = ''c''\<rparr>],
            depth_map = Map.empty,
            queue_rgb = [(10000000, 1)], queue_depth = [], calls = []\<rparr>"
  using resolve_strict_tolerance [of "\<lparr>counter = 2, rgb_map = [0 \<mapsto> Some \<lparr>stamp_sec = 0, stamp_nanosec = 0, pixels = ''c''\<rparr>],
            depth_map = [1 \<mapsto> Some \<lparr>stamp_sec = 0, stamp_nanosec = 9999999, pixels = ''d''\<rparr>],
            queue_rgb = [(0, 0)], queue_depth = [(9999999, 1)], calls = []\<rparr>" 0 0 "[]" 9999999 1 "[]" 9999999]
    resolve_strict_tolerance [of "\<lparr>counter = 2, rgb_map = [1 \<mapsto> Some \<lparr>stamp_sec = 0, stamp_nanosec = 10000000, pixels = ''c''\<rparr>],
            depth_map = [0 \<mapsto> Some \<lparr>stamp_sec = 0, stamp_nanosec = 0, pixels = ''d''\<rparr>],
            queue_rgb = [(10000000, 1)], queue_depth = [(0, 0)], calls = []\<rparr>" 10000000 1 "[]" 0 0 "[]" 0]
  by (simp add: resolve_done map_at_def)


lemma set_pq_push [simp]: "set (pq_push x q) = insert x (set q)"
  by (induction q) auto

lemma distinct_pq_push:
  "distinct (map snd (pq_push x q)) \<longleftrightarrow> snd x \<notin> snd ` set q \<and> distinct (map snd q)"
proof (induction q)
  case Nil
  show ?case by simp
next
  case (Cons y ys)
  show ?case
  proof (cases "fst x < fst y")
    case True
    then show ?thesis by (simp add: conj_commute)
  next
    case False
    then show ?thesis using Cons by (auto simp: image_iff)
  qed
qed

lemma well_formed_iff:
  "well_formed s \<longleftrightarrow>
     stream_ok (rgb_map s) (queue_rgb s) (counter s) \<and>
     stream_ok (depth_map s) (queue_depth s) (counter s)"
proof -
  have "snd ` set (queue_rgb s) = dom (rgb_map s) \<longleftrightarrow> dom (rgb_map s) = snd ` set (queue_rgb s)"
    by (rule eq_commute)
  moreover
  have "snd ` set (queue_depth s) = dom (depth_map s) \<longleftrightarrow> dom (depth_map s) = snd ` set (queue_depth s)"
    by (rule eq_commute)
  ultimately show ?thesis
    unfolding well_formed_def sync_invariant_def stream_ok_def ball_Un
    by (simp only: conj_ac)
qed

lemma stream_ok_pop:
  assumes "stream_ok m ((t, k0) # q) c"
  shows "stream_ok (m(k0 := None)) q c"
proof -
  from assms have d: "dom m = insert k0 (snd ` set q)" and n: "k0 \<notin> snd ` set q"
    and dq: "distinct (map snd q)" and c: "\<forall>k \<in> snd ` set q. k < c"
    by (simp_all add: stream_ok_def)
  have "dom (m(k0 := None)) = dom m - {k0}" by simp
  also have "\<dots> = snd ` set q" using d n by blast
  finally show ?thesis using dq c by (simp add: stream_ok_def)
qed

lemma stream_ok_push:
  assumes "stream_ok m q c" "unat c + 1 < 2 ^ 32"
  shows "stream_ok (m(c \<mapsto> v)) (pq_push (t, c) q) (c + 1)"
proof -
  from assms(1) have d: "dom m = snd ` set q"
    and dq: "distinct (map snd q)" and c: "\<forall>k \<in> snd ` set q. k < c"
    by (simp_all add: stream_ok_def)
  have fresh: "c \<notin> snd ` set q" using c by blast
  have lt: "c < c + 1"
    using assms(2) by (simp add: word_less_nat_alt unat_word_ariths)
  have up: "\<forall>k \<in> snd ` set q. k < c + 1"
    using c lt by (meson less_trans)
  have "snd ` set (pq_push (t, c) q) = insert c (snd ` set q)" by simp
  moreover have "dom (m(c \<mapsto> v)) = insert c (dom m)" by simp
  moreover have "distinct (map snd (pq_push (t, c) q))"
    using fresh dq by (simp add: distinct_pq_push)
  ultimately show ?thesis
    using d lt up unfolding stream_ok_def by (simp del: set_pq_push dom_fun_upd)
qed

lemma stream_ok_counter:
  assumes "stream_ok m q c" "unat c + 1 < 2 ^ 32"
  shows "stream_ok m q (c + 1)"
proof -
  have lt: "c < c + 1"
    using assms(2) by (simp add: word_less_nat_alt unat_word_ariths)
  have "\<forall>k \<in> snd ` set q. k < c + 1"
    using assms(1) lt unfolding stream_ok_def by (meson less_trans)
  then show ?thesis using assms(1) by (simp add: stream_ok_def)
qed

lemma well_formed_resolve_body:
  assumes "well_formed s" "queue_rgb s \<noteq> []" "queue_depth s \<noteq> []"
  shows "well_formed (resolve_body s)"
proof -
  obtain tr kr qr td kd qd where q: "queue_rgb s = (tr, kr) # qr" "queue_depth s = (td, kd) # qd"
    using assms(2,3) by (cases "queue_rgb s"; cases "queue_depth s") auto
  from assms(1) q have r: "stream_ok (rgb_map s) ((tr, kr) # qr) (counter s)"
    and d: "stream_ok (depth_map s) ((td, kd) # qd) (counter s)"
    by (simp_all add: well_formed_iff)
  note r' = stream_ok_pop [OF r] and d' = stream_ok_pop [OF d]
  have "well_formed (pair_heads s)"
    using r' d' by (simp add: well_formed_iff pair_heads_Cons [OF q])
  moreover have "well_formed (drop_rgb_head s)"
    using r' d q(2) by (simp add: well_formed_iff drop_rgb_head_Cons [OF q(1)])
  moreover have "well_formed (drop_depth_head s)"
    using r d' q(1) by (simp add: well_formed_iff drop_depth_head_Cons [OF q(2)])
  ultimately show ?thesis by (simp add: resolve_body_def Let_def)
qed

lemma counter_resolve_body: "counter (resolve_body s) = counter s"
  by (simp add: resolve_body_def pair_heads_def drop_rgb_head_def drop_depth_head_def Let_def
      split: prod.splits)

lemma well_formed_resolve: "well_formed s \<Longrightarrow> well_formed (resolve s)"
proof (induction s rule: resolve.induct)
  case (1 s)
  show ?case
  proof (cases "queue_rgb s = [] \<or> queue_depth s = []")
    case True
    then have "resolve s = s" by (rule resolve_done)
    with 1(2) show ?thesis by (simp only:)
  next
    case False
    then have ne: "queue_rgb s \<noteq> []" "queue_depth s \<noteq> []" by simp_all
    have "well_formed (resolve (resolve_body s))"
      using False "1.prems" ne by (intro "1.IH" well_formed_resolve_body)
    moreover have "resolve s = resolve (resolve_body s)"
      using ne by (rule resolve_unfold)
    ultimately show ?thesis by (simp only:)
  qed
qed

lemma counter_resolve: "counter (resolve s) = counter s"
proof (induction s rule: resolve.induct)
  case (1 s)
  show ?case
  proof (cases "queue_rgb s = [] \<or> queue_depth s = []")
    case True
    then have "resolve s = s" by (rule resolve_done)
    then show ?thesis by (simp only:)
  next
    case False
    then have ne: "queue_rgb s \<noteq> []" "queue_depth s \<noteq> []" by simp_all
    have "counter (resolve (resolve_body s)) = counter (resolve_body s)"
      using False by (rule "1.IH")
    moreover have "resolve s = resolve (resolve_body s)"
      using ne by (rule resolve_unfold)
    ultimately show ?thesis by (simp only: counter_resolve_body)
  qed
qed

lemma unat_counter_Suc:
  "unat (c :: u32) + 1 < 2 ^ 32 \<Longrightarrow> unat (c + 1) = unat c + 1"
  by (simp add: unat_word_ariths)

lemma well_formed_ingest:
  assumes "well_formed s" "unat (counter s) + 1 < 2 ^ 32"
  shows "well_formed (ingest_step s x) \<and> unat (counter (ingest_step s x)) = unat (counter s) + 1"
proof -
  from assms(1) have r: "stream_ok (rgb_map s) (queue_rgb s) (counter s)"
    and d: "stream_ok (depth_map s) (queue_depth s) (counter s)"
    by (simp_all add: well_formed_iff)
  show ?thesis
  proof (cases x)
    case (Rgb msg)
    have "well_formed (s\<lparr>rgb_map := (rgb_map s)(counter s \<mapsto> Some msg),
                    queue_rgb := pq_push (nanoseconds_of msg, counter s) (queue_rgb s),
                    counter := counter s + 1\<rparr>)"
      using stream_ok_push [OF r assms(2)] stream_ok_counter [OF d assms(2)]
      by (simp add: well_formed_iff del: set_pq_push)
    then show ?thesis
      using Rgb assms(2)
      by (simp add: callback_rgb_def well_formed_resolve counter_resolve unat_counter_Suc)
  next
    case (Depth msg)
    have "well_formed (s\<lparr>depth_map := (depth_map s)(counter s \<mapsto> Some msg),
                    queue_depth := pq_push (nanoseconds_of msg, counter s) (queue_depth s),
                    counter := counter s + 1\<rparr>)"
      using stream_ok_push [OF d assms(2)] stream_ok_counter [OF r assms(2)]
      by (simp add: well_formed_iff del: set_pq_push)
    then show ?thesis
      using Depth assms(2)
      by (simp add: callback_depth_def well_formed_resolve counter_resolve unat_counter_Suc)
  qed
qed

lemma well_formed_run:
  "length ops < 2 ^ 32 \<Longrightarrow> well_formed (run ops) \<and> unat (counter (run ops)) = length ops"
proof (induction ops rule: rev_induct)
  case Nil
  show ?case by (simp add: run_def new_ImageSync_def well_formed_def sync_invariant_def)
next
  case (snoc x xs)
  then have ih: "well_formed (run xs)" "unat (counter (run xs)) = length xs" by simp_all
  have "unat (counter (run xs)) + 1 < 2 ^ 32" using snoc.prems ih(2) by simp
  from well_formed_ingest [OF ih(1) this, of x] ih(2)
  show ?case by (simp add: run_def)
qed

text \<open>
  Claim C10, amended. After any sequence of fewer than \<open>2^32\<close> ingest calls, each queue
  names exactly the keys of its map and every such key is below the counter.
\<close>

theorem sync_invariant_run:
  "length ops < 2 ^ 32 \<Longrightarrow> sync_invariant (run ops)"
  using well_formed_run [of ops] by (simp add: well_formed_def)

lemma run_late_rgb: "run [Rgb late_rgb] = waiting_rgb 1"
  by (simp add: run_def new_ImageSync_def callback_rgb_def nanoseconds_of_def late_rgb_def
      waiting_rgb_def resolve_done)

lemma early_depth_dropped: "callback_depth early_depth (waiting_rgb c) = waiting_rgb (c + 1)"
  by (simp add: callback_depth_def nanoseconds_of_def early_depth_def waiting_rgb_def
      resolve.simps resolve_body_def abs_long_diff_def
      acceptable_synchronization_error_nanoseconds_def drop_depth_head_def map_at_def
      map_erase_def)

lemma foldl_replicate_Suc:
  "foldl f s (replicate (Suc n) x) = f (foldl f s (replicate n x)) x"
proof -
  have "replicate (Suc n) x = replicate n x @ [x]"
    by (simp only: replicate_append_same replicate.simps)
  then show ?thesis by (simp only: foldl_append foldl_Cons foldl_Nil)
qed

lemma depth_burst:
  "foldl ingest_step (waiting_rgb c) (replicate n (Depth early_depth)) = waiting_rgb (c + word_of_nat n)"
proof (induction n)
  case 0
  show ?case by simp
next
  case (Suc n)
  have "foldl ingest_step (waiting_rgb c) (replicate (Suc n) (Depth early_depth))
        = callback_depth early_depth (waiting_rgb (c + word_of_nat n))"
    by (simp only: foldl_replicate_Suc Suc ingest_step.simps)
  also have "\<dots> = waiting_rgb (c + word_of_nat n + 1)"
    by (rule early_depth_dropped)
  also have "c + word_of_nat n + 1 = c + word_of_nat (Suc n)"
    by simp
  finally show ?case .
qed

text \<open>
  Claim C10, as stated for every sequence of ingest calls, fails once the 32-bit counter
  wraps: after one colour frame and \<open>2^32 - 1\<close> older depth frames the counter is 0 again
  while the colour frame, stored under key 0, is still queued.
\<close>

theorem counter_wraps_past_waiting_frame:
  "\<not> sync_invariant (run (Rgb late_rgb # replicate 4294967295 (Depth early_depth)))"
proof -
  have "run (Rgb late_rgb # replicate 4294967295 (Depth early_depth))
        = foldl ingest_step (run [Rgb late_rgb]) (replicate 4294967295 (Depth early_depth))"
    by (simp only: run_def foldl_Cons foldl_Nil)
  also have "\<dots> = waiting_rgb (1 + word_of_nat 4294967295)"
    by (simp only: run_late_rgb depth_burst)
  also have "(1 + word_of_nat 4294967295 :: u32) = 0"
    by simp
  finally have wrapped:
    "run (Rgb late_rgb # replicate 4294967295 (Depth early_depth)) = waiting_rgb 0" .
  have "\<not> sync_invariant (waiting_rgb 0)"
    by (simp add: sync_invariant_def waiting_rgb_def)
  then show ?thesis unfolding wrapped .
qed

theorem sync_invariant_run_witness:
  "length [Rgb late_rgb, Depth early_depth] < 2 ^ 32 \<and> sync_invariant (run [Rgb late_rgb, Depth early_depth])"
  using sync_invariant_run [of "[Rgb late_rgb, Depth early_depth]"] by simp

section \<open>Properties of the smart-classroom UI\<close>

text \<open>
  Claim C9. \<open>resetFlow\<close> keeps \<open>hasAudioDevices\<close>, \<open>audioDevicesLoading\<close>, \<open>frontCamera\<close>,
  \<open>backCamera\<close> and \<open>boardCamera\<close>; it sets the audio and the video status from those kept
  values; every other field gets the value it has in \<open>initialState\<close>.
\<close>

theorem resetFlow_preserves_devices_resets_rest:
  "hasAudioDevices (resetFlow s) = hasAudioDevices s \<and>
   audioDevicesLoading (resetFlow s) = audioDevicesLoading s \<and>
   frontCamera (resetFlow s) = frontCamera s \<and>
   backCamera (resetFlow s) = backCamera s \<and>
   boardCamera (resetFlow s) = boardCamera s \<and>
   audioStatus (resetFlow s) =
     (if audioDevicesLoading s then AudioChecking
      else if hasAudioDevices s then AudioReady else AudioNoDevices) \<and>
   videoStatus (resetFlow s) =
     (if trim (frontCamera s) \<noteq> [] \<or> trim (backCamera s) \<noteq> [] \<or> trim (boardCamera s) \<noteq> []
      then VideoReady else VideoNoConfig) \<and>
   aiProcessing (resetFlow s) = aiProcessing initialState \<and>
   summaryEnabled (resetFlow s) = summaryEnabled initialState \<and>
   summaryLoading (resetFlow s) = summaryLoading initialState \<and>
   mindmapEnabled (resetFlow s) = mindmapEnabled initialState \<and>
   mindmapLoading (resetFlow s) = mindmapLoading initialState \<and>
   activeTab (resetFlow s) = activeTab initialState \<and>
   autoSwitched (resetFlow s) = autoSwitched initialState \<and>
   autoSwitchedToMindmap (resetFlow s) = autoSwitchedToMindmap initialState \<and>
   sessionId (resetFlow s) = sessionId initialState \<and>
   videoSessionId (resetFlow s) = videoSessionId initialState \<and>
   uploadedAudioPath (resetFlow s) = uploadedAudioPath initialState \<and>
   shouldStartSummary (resetFlow s) = shouldStartSummary initialState \<and>
   shouldStartMindmap (resetFlow s) = shouldStartMindmap initialState \<and>
   projectLocation (resetFlow s) = projectLocation initialState \<and>
   frontCameraStream (resetFlow s) = frontCameraStream initialState \<and>
   backCameraStream (resetFlow s) = backCameraStream initialState \<and>
   boardCameraStream (resetFlow s) = boardCameraStream initialState \<and>
   activeStream (resetFlow s) = activeStream initialState \<and>
   videoAnalyticsLoading (resetFlow s) = videoAnalyticsLoading initialState \<and>
   videoAnalyticsActive (resetFlow s) = videoAnalyticsActive initialState \<and>
   processingMode (resetFlow s) = processingMode initialState \<and>
   isRecording (resetFlow s) = isRecording initialState \<and>
   justStoppedRecording (resetFlow s) = justStoppedRecording initialState \<and>
   videoAnalyticsStopping (resetFlow s) = videoAnalyticsStopping initialState \<and>
   hasUploadedVideoFiles (resetFlow s) = hasUploadedVideoFiles initialState"
  by (simp add: resetFlow_def Let_def)

text \<open>
  The same at a concrete state: a store in the middle of a recording with a front camera
  configured and no microphone.
\<close>

theorem resetFlow_preserves_devices_resets_rest_witness:
  "resetFlow (initialState\<lparr>hasAudioDevices := False, frontCamera := ''rtsp://cam'',
                sessionId := Some ''s1'', isRecording := True, aiProcessing := True\<rparr>)
     = initialState\<lparr>hasAudioDevices := False, frontCamera := ''rtsp://cam'',
                audioStatus := AudioNoDevices, videoStatus := VideoReady\<rparr>"
  using resetFlow_preserves_devices_resets_rest
          [of "initialState\<lparr>hasAudioDevices := False, frontCamera := ''rtsp://cam'',
                sessionId := Some ''s1'', isRecording := True, aiProcessing := True\<rparr>"]
  by (simp add: initialState_def trim_def js_whitespace_def)

text \<open>
  Claim C4. When the form is applied with no audio file and none of the three camera files
  selected, \<open>handleApply\<close> sets the error message and returns: the store is unchanged, no
  request is sent (no session, no monitoring, no upload, no pipeline, no transcript stream)
  and no other action is dispatched; nothing of the modal changes but the error message.
\<close>

theorem handleApply_rejects_empty_form:
  assumes "audioFile m = None" and "frontCameraPath m = None"
    and "rearCameraPath m = None" and "boardCameraPath m = None"
  shows "handleApply replies m = m\<lparr>error := Some ''At least one file (audio or video) is required.''\<rparr>
         \<and> ui (handleApply replies m) = ui m
         \<and> requests (handleApply replies m) = requests m
         \<and> dispatched (handleApply replies m) = dispatched m"
  using assms by (simp add: handleApply_def)

theorem handleApply_rejects_empty_form_witness:
  "audioFile empty_form = None \<and> frontCameraPath empty_form = None
   \<and> rearCameraPath empty_form = None \<and> boardCameraPath empty_form = None
   \<and> error (handleApply all_accepted empty_form)
        = Some ''At least one file (audio or video) is required.''
   \<and> ui (handleApply all_accepted empty_form) = initialState
   \<and> requests (handleApply all_accepted empty_form) = []
   \<and> dispatched (handleApply all_accepted empty_form) = []"
  using handleApply_rejects_empty_form [of empty_form all_accepted]
  by (simp add: empty_form_def)

text \<open>
  Claim C5. While no recording is in progress: with no audio device, no camera configured
  (front, back and board blank) and no uploaded video files, the record control is disabled;
  with a microphone or a video capability, and none of the other disabling conditions
  (device probing, processing, transcript streaming, summary loading, a mind map enabled but
  not ready, video analytics stopping or starting), it is enabled.
\<close>

theorem record_control_disabled_without_sources:
  assumes "\<not> isRecording (ui h)"
  shows "(\<not> hasAudioDevices (ui h) \<and> trim (frontCamera (ui h)) = [] \<and> trim (backCamera (ui h)) = []
            \<and> trim (boardCamera (ui h)) = [] \<and> \<not> hasUploadedVideoFiles (ui h)
          \<longrightarrow> isRecordingDisabled h) \<and>
         ((hasAudioDevices (ui h) \<or> trim (frontCamera (ui h)) \<noteq> [] \<or> trim (backCamera (ui h)) \<noteq> []
            \<or> trim (boardCamera (ui h)) \<noteq> [] \<or> hasUploadedVideoFiles (ui h))
          \<and> \<not> audioDevicesLoading (ui h) \<and> \<not> aiProcessing (ui h)
          \<and> transcriptStatus h \<noteq> ''streaming'' \<and> \<not> summaryLoading (ui h)
          \<and> \<not> (mindmapEnabled (ui h) \<and>
                 (mindmapLoading (ui h) \<or> mindmapIsLoading h \<or> \<not> truthy (mindmapFinalText h)))
          \<and> \<not> videoAnalyticsStopping (ui h) \<and> \<not> videoAnalyticsLoading (ui h)
          \<longrightarrow> \<not> isRecordingDisabled h)"
  using assms
  by (auto simp: isRecordingDisabled_def hasNothingToRecord_def hasVideoCapability_def Let_def)

theorem record_control_disabled_without_sources_witness:
  "isRecordingDisabled (idle_header False [])
   \<and> \<not> isRecordingDisabled (idle_header True [])
   \<and> \<not> isRecordingDisabled (idle_header False ''rtsp://cam'')"
  using record_control_disabled_without_sources [of "idle_header False []"]
    record_control_disabled_without_sources [of "idle_header True []"]
    record_control_disabled_without_sources [of "idle_header False ''rtsp://cam''"]
  by (simp add: idle_header_def initialState_def setHasAudioDevices_def trim_def
      js_whitespace_def truthy_def)

subsection \<open>The audio status when a recording is stopped\<close>

lemma ui_dispatch [simp]: "ui (dispatch f h) = f (ui h)"
  by (simp add: dispatch_def)

lemma ui_request [simp]: "ui (request c h) = ui h"
  by (simp add: request_def)

lemma audioStatus_clear_streams [simp]:
  "audioStatus (ui (clear_streams h)) = audioStatus (ui h)"
  by (simp add: clear_streams_def setFrontCameraStream_def setBackCameraStream_def
      setBoardCameraStream_def setActiveStream_def setVideoAnalyticsActive_def Let_def)

lemma audioStatus_stop_video [simp]:
  "audioStatus (ui (stop_video ok c h)) = audioStatus (ui h)"
  by (simp add: stop_video_def setVideoAnalyticsStopping_def setVideoStatus_def Let_def)

lemma audioStatus_stop_modes [simp]:
  "audioStatus (ui (stop_modes c h)) = audioStatus (ui h)"
  by (simp add: stop_modes_def setProcessingMode_def setUploadedAudioPath_def MICROPHONE_def Let_def)

lemma audioStatus_stop_failed [simp]:
  "audioStatus (ui (stop_failed c h)) = (if hasAudioDevices c then AudioReady else AudioNoDevices)"
  by (simp add: stop_failed_def setProcessingMode_def setUploadedAudioPath_def MICROPHONE_def
      setVideoStatus_def setAudioStatus_def setVideoAnalyticsStopping_def Let_def)

lemma ui_dispatch_other [simp]: "ui (dispatch_other a h) = ui h"
  by (simp add: dispatch_other_def)

lemma requests_dispatch [simp]: "requests (dispatch f h) = requests h"
  by (simp add: dispatch_def)

lemma requests_request [simp]: "requests (request c h) = requests h @ [c]"
  by (simp add: request_def)

lemma requests_dispatch_other [simp]: "requests (dispatch_other a h) = requests h"
  by (simp add: dispatch_other_def)

lemma requests_clear_streams [simp]: "requests (clear_streams h) = requests h"
  by (simp add: clear_streams_def Let_def)

lemma requests_stop_video [simp]:
  "requests (stop_video ok c h) =
     requests h @ (if videoAnalyticsActive c \<and> hasVideoCapability c \<and> truthy (sessionId c)
                   then [StopVideoAnalytics [''front'', ''back'', ''content''] (session_of c)]
                   else [])"
  by (simp add: stop_video_def Let_def)

lemma requests_stop_modes [simp]: "requests (stop_modes c h) = requests h"
  by (simp add: stop_modes_def Let_def)

lemma requests_stop_failed [simp]: "requests (stop_failed c h) = requests h"
  by (simp add: stop_failed_def Let_def)

lemma idle_header_enabled: "\<not> isRecordingDisabled (idle_header True [])"
  by (simp add: isRecordingDisabled_def hasNothingToRecord_def idle_header_def
      setHasAudioDevices_def initialState_def)

lemma microphone_recording_ui:
  "ui microphone_recording =
     initialState\<lparr>aiProcessing := True, processingMode := Some Microphone,
       sessionId := Some ''s1'', uploadedAudioPath := Some MICROPHONE,
       audioStatus := AudioRecording, videoStatus := VideoNoConfig, isRecording := True\<rparr>"
  unfolding microphone_recording_def handleRecordingToggle_def
  using idle_header_enabled
  by (simp add: Let_def start_recording_def all_accepted_def idle_header_def
      setHasAudioDevices_def initialState_def hasVideoCapability_def
      resetFlow_def startProcessing_def setProcessingMode_def setAudioStatus_def
      setSessionId_def setUploadedAudioPath_def startTranscription_def setIsRecording_def
      setJustStoppedRecording_def setVideoStatus_def trim_def js_whitespace_def
      MICROPHONE_def)

lemma stop_recording_audio:
  "audioStatus (ui (stop_recording replies c h)) =
     (if truthy (sessionId c) \<and> hasAudioDevices c \<and> uploadedAudioPath c = Some MICROPHONE
      then (if stopMicrophone_reply replies then audioStatus (ui h) else AudioReady)
      else if \<not> hasAudioDevices c then AudioNoDevices
      else if audioStatus c = AudioRecording then AudioReady
      else audioStatus (ui h))"
  by (simp add: stop_recording_def stop_audio_def wasRecordingAudio_def Let_def
      setIsRecording_def setJustStoppedRecording_def setAudioStatus_def)

lemma stop_recording_requests:
  "requests (stop_recording replies c h) =
     requests h
     @ (if truthy (sessionId c) \<and> hasAudioDevices c \<and> uploadedAudioPath c = Some MICROPHONE
        then [StopMicrophone (session_of c)] else [])
     @ (if (truthy (sessionId c) \<and> hasAudioDevices c \<and> uploadedAudioPath c = Some MICROPHONE
              \<longrightarrow> stopMicrophone_reply replies)
           \<and> videoAnalyticsActive c \<and> hasVideoCapability c \<and> truthy (sessionId c)
        then [StopVideoAnalytics [''front'', ''back'', ''content''] (session_of c)] else [])"
  by (simp add: stop_recording_def stop_audio_def wasRecordingAudio_def Let_def)

lemma microphone_recording_requests:
  "requests microphone_recording = [CreateSession, StartMonitoring ''s1'']"
  unfolding microphone_recording_def handleRecordingToggle_def
  using idle_header_enabled
  by (simp add: Let_def start_recording_def all_accepted_def idle_header_def
      setHasAudioDevices_def initialState_def hasVideoCapability_def
      trim_def js_whitespace_def MICROPHONE_def)

lemma recording_not_disabled: "isRecording (ui h) \<Longrightarrow> \<not> isRecordingDisabled h"
  by (simp add: isRecordingDisabled_def)

text \<open>
  Claim C3, as stated, fails on its second half: when a microphone recording (audio devices
  present, the path is the microphone sentinel, a session exists) is stopped and
  \<open>stopMicrophone\<close> succeeds, the audio status is not moved to ready; it stays what it was,
  here \<open>recording\<close>.
\<close>

theorem microphone_stop_keeps_recording_status:
  "isRecording (ui microphone_recording)
   \<and> hasAudioDevices (ui microphone_recording)
   \<and> uploadedAudioPath (ui microphone_recording) = Some MICROPHONE
   \<and> audioStatus (ui microphone_recording) = AudioRecording
   \<and> audioStatus (ui (handleRecordingToggle all_accepted microphone_recording)) = AudioRecording"
proof -
  have r: "isRecording (ui microphone_recording)"
    by (simp add: microphone_recording_ui)
  have "handleRecordingToggle all_accepted microphone_recording
        = stop_recording all_accepted (ui microphone_recording)
            (microphone_recording\<lparr>errorMsg := None\<rparr>)"
    using r recording_not_disabled [OF r] by (simp add: handleRecordingToggle_def Let_def)
  then show ?thesis
    by (simp add: stop_recording_audio microphone_recording_ui initialState_def truthy_def
        all_accepted_def)
qed

text \<open>
  Claim C3, amended. When the record control is used while a recording runs: if a
  microphone recording is running
  (session identifier set, audio devices present, path equal to the microphone sentinel) the
  handler sends \<open>stopMicrophone\<close> for the session, and the audio status is left as it is
  when that call succeeds and becomes ready when it fails; otherwise no \<open>stopMicrophone\<close>
  is sent, and the status becomes no-devices when there is no audio device, becomes ready
  when there is one and the status was \<open>recording\<close>, and is left as it is in every other case.
  The requests the handler sends are exactly these: \<open>stopMicrophone\<close> in the microphone
  case, then, unless \<open>stopMicrophone\<close> failed, the request to stop the video pipelines when
  video analytics was active with a camera configured and a session identifier set.
\<close>

theorem stop_recording_audio_status:
  assumes "isRecording (ui h)"
  shows "audioStatus (ui (handleRecordingToggle replies h)) =
     (if truthy (sessionId (ui h)) \<and> hasAudioDevices (ui h)
         \<and> uploadedAudioPath (ui h) = Some MICROPHONE
      then (if stopMicrophone_reply replies then audioStatus (ui h) else AudioReady)
      else if \<not> hasAudioDevices (ui h) then AudioNoDevices
      else if audioStatus (ui h) = AudioRecording then AudioReady
      else audioStatus (ui h))
   \<and> requests (handleRecordingToggle replies h) =
     requests h
     @ (if truthy (sessionId (ui h)) \<and> hasAudioDevices (ui h)
           \<and> uploadedAudioPath (ui h) = Some MICROPHONE
        then [StopMicrophone (session_of (ui h))] else [])
     @ (if (truthy (sessionId (ui h)) \<and> hasAudioDevices (ui h)
              \<and> uploadedAudioPath (ui h) = Some MICROPHONE
              \<longrightarrow> stopMicrophone_reply replies)
           \<and> videoAnalyticsActive (ui h) \<and> hasVideoCapability (ui h)
           \<and> truthy (sessionId (ui h))
        then [StopVideoAnalytics [''front'', ''back'', ''content''] (session_of (ui h))]
        else [])"
proof -
  have "handleRecordingToggle replies h = stop_recording replies (ui h) (h\<lparr>errorMsg := None\<rparr>)"
    using assms recording_not_disabled [OF assms] by (simp add: handleRecordingToggle_def Let_def)
  then show ?thesis by (simp add: stop_recording_audio stop_recording_requests)
qed

theorem stop_recording_audio_status_witness:
  "isRecording (ui microphone_recording)
   \<and> audioStatus (ui (handleRecordingToggle all_accepted microphone_recording)) = AudioRecording
   \<and> requests (handleRecordingToggle all_accepted microphone_recording)
       = [CreateSession, StartMonitoring ''s1'', StopMicrophone ''s1'']
   \<and> audioStatus (ui (handleRecordingToggle (all_accepted\<lparr>stopMicrophone_reply := False\<rparr>)
                          microphone_recording)) = AudioReady
   \<and> requests (handleRecordingToggle (all_accepted\<lparr>stopMicrophone_reply := False\<rparr>)
                          microphone_recording)
       = [CreateSession, StartMonitoring ''s1'', StopMicrophone ''s1'']"
proof -
  have r: "isRecording (ui microphone_recording)"
    by (simp add: microphone_recording_ui)
  from stop_recording_audio_status [OF r, of all_accepted]
    stop_recording_audio_status [OF r, of "all_accepted\<lparr>stopMicrophone_reply := False\<rparr>"]
  show ?thesis
    using r by (simp add: microphone_recording_ui microphone_recording_requests initialState_def
        truthy_def all_accepted_def session_of_def)
qed

section \<open>Properties of the bootstrap scripts\<close>

subsection \<open>Looking a variable up after an export\<close>

lemma vars_export_var [simp]:
  "vars (export_var n v sh) m = (if m = n then Some v else vars sh m)"
  by (simp add: export_var_def)

lemma exported_export_var [simp]:
  "m \<in> exported (export_var n v sh) \<longleftrightarrow> m = n \<or> m \<in> exported sh"
  by (simp add: export_var_def)

lemma vars_export_default [simp]:
  "vars (export_default n w sh) m = (if m = n then Some (expand_default sh n w) else vars sh m)"
  by (simp add: export_default_def)

lemma exported_export_default [simp]:
  "m \<in> exported (export_default n w sh) \<longleftrightarrow> m = n \<or> m \<in> exported sh"
  by (simp add: export_default_def)

lemma expand_export_var [simp]:
  "expand (export_var n v sh) m = (if m = n then v else expand sh m)"
  by (simp add: expand_def)

lemma expand_export_default [simp]:
  "expand (export_default n w sh) m = (if m = n then expand_default sh n w else expand sh m)"
  by (simp add: expand_def)

lemma expand_default_export_var [simp]:
  "expand_default (export_var n v sh) m w =
     (if m = n then (if v = [] then w else v) else expand_default sh m w)"
  by (simp add: expand_default_def)

lemma expand_default_export_default [simp]:
  "expand_default (export_default n w' sh) m w =
     (if m = n then (if expand_default sh n w' = [] then w else expand_default sh n w')
      else expand_default sh m w)"
  by (simp add: expand_default_def)

lemma detect_host_ip_other:
  "n \<noteq> ''HOST_IP'' \<Longrightarrow> n \<noteq> ''no_proxy'' \<Longrightarrow>
   vars (detect_host_ip ip sh) n = vars sh n
   \<and> expand_default (detect_host_ip ip sh) n w = expand_default sh n w"
  by (simp add: detect_host_ip_def Let_def expand_default_def)

lemma agent_workers:
  "vars (agent_environment u g r sh) ''VLM_WORKERS'' =
     Some (if expand_default sh ''VLM_DEVICE'' ''CPU'' = ''GPU'' then ''1''
           else expand_default sh ''VLM_WORKERS'' ''1'')"
  by (simp add: agent_environment_def Let_def)

lemma agent_format:
  "vars (agent_environment u g r sh) ''VLM_COMPRESSION_WEIGHT_FORMAT'' =
     Some (if expand_default sh ''VLM_DEVICE'' ''CPU'' = ''GPU'' then ''int4''
           else expand_default sh ''VLM_COMPRESSION_WEIGHT_FORMAT'' ''int8'')"
  by (simp add: agent_environment_def Let_def)

lemma agent_workers_exported: "''VLM_WORKERS'' \<in> exported (agent_environment u g r sh)"
  by (simp add: agent_environment_def Let_def)

lemma route_defaulted:
  "(n, d) \<in> set route_defaults \<Longrightarrow>
   vars (route_environment ip sh) n = Some (expand_default sh n d)
   \<and> n \<in> exported (route_environment ip sh)"
  unfolding route_defaults_def route_environment_def Let_def
  by (elim disjE | simp add: detect_host_ip_other)+

lemma agent_defaulted:
  "(n, d) \<in> set agent_defaults \<Longrightarrow>
   vars (agent_environment u g r sh) n = Some (expand_default sh n d)
   \<and> n \<in> exported (agent_environment u g r sh)"
  unfolding agent_defaults_def agent_environment_def Let_def
  by (elim disjE | simp)+

lemma route_setup_runs:
  "length args = 1 \<Longrightarrow> hd args \<noteq> ''help'' \<Longrightarrow> route_setup args ip sh = route_environment ip sh"
  by (simp add: route_setup_def)

subsection \<open>The worker count of the intersection agent\<close>

text \<open>
  Claim C6, as stated, fails: with \<open>VLM_WORKERS\<close> unset the intersection script exports it
  as 1, not 4.
\<close>

theorem vlm_workers_default_is_one:
  "vars empty_shell ''VLM_WORKERS'' = None
   \<and> vars (agent_environment ''1000'' ''44'' ''109'' empty_shell) ''VLM_WORKERS'' = Some ''1''"
  by (simp add: agent_workers empty_shell_def expand_default_def)

text \<open>
  Claim C6, amended. When \<open>VLM_WORKERS\<close> is unset (or empty) the intersection script exports
  it with the default value 1; when \<open>VLM_DEVICE\<close> is \<open>GPU\<close> it is forced to 1 and the
  compression weight format to \<open>int4\<close>.
\<close>

theorem vlm_workers_default_and_gpu:
  "((vars sh ''VLM_WORKERS'' = None \<or> vars sh ''VLM_WORKERS'' = Some [])
      \<longrightarrow> vars (agent_environment u g r sh) ''VLM_WORKERS'' = Some ''1'')
   \<and> (vars sh ''VLM_DEVICE'' = Some ''GPU''
      \<longrightarrow> vars (agent_environment u g r sh) ''VLM_WORKERS'' = Some ''1''
        \<and> vars (agent_environment u g r sh) ''VLM_COMPRESSION_WEIGHT_FORMAT'' = Some ''int4'')
   \<and> ''VLM_WORKERS'' \<in> exported (agent_environment u g r sh)"
  by (auto simp: agent_workers agent_format agent_workers_exported expand_default_def)

theorem vlm_workers_default_and_gpu_witness:
  "vars (agent_environment ''1000'' ''44'' ''109'' empty_shell) ''VLM_WORKERS'' = Some ''1''
   \<and> vars (agent_environment ''1000'' ''44'' ''109''
              (preset ''VLM_DEVICE'' ''GPU'' (preset ''VLM_WORKERS'' ''4'' empty_shell)))
        ''VLM_WORKERS'' = Some ''1''
   \<and> vars (agent_environment ''1000'' ''44'' ''109''
              (preset ''VLM_DEVICE'' ''GPU'' (preset ''VLM_WORKERS'' ''4'' empty_shell)))
        ''VLM_COMPRESSION_WEIGHT_FORMAT'' = Some ''int4''"
  using vlm_workers_default_and_gpu [of empty_shell "''1000''" "''44''" "''109''"]
    vlm_workers_default_and_gpu [of "preset ''VLM_DEVICE'' ''GPU'' (preset ''VLM_WORKERS'' ''4'' empty_shell)"
      "''1000''" "''44''" "''109''"]
  by (simp add: empty_shell_def preset_def)

subsection \<open>Defaults and values set beforehand\<close>

text \<open>
  Claim C7, as stated, fails in two ways. A variable set to the empty string is set, yet the
  script exports the default: \<open>LOG_LEVEL\<close> set to the empty string comes out as \<open>INFO\<close>.
  And with \<open>VLM_DEVICE\<close> set to \<open>GPU\<close>, a \<open>VLM_WORKERS\<close> set to 4 beforehand comes out
  as 1.
\<close>

theorem preset_values_overwritten:
  "vars (preset ''LOG_LEVEL'' [] empty_shell) ''LOG_LEVEL'' = Some []
   \<and> vars (route_setup [''up''] ''10.0.0.1'' (preset ''LOG_LEVEL'' [] empty_shell)) ''LOG_LEVEL''
       = Some ''INFO''
   \<and> vars (preset ''VLM_DEVICE'' ''GPU'' (preset ''VLM_WORKERS'' ''4'' empty_shell)) ''VLM_WORKERS''
       = Some ''4''
   \<and> vars (agent_environment ''1000'' ''44'' ''109''
              (preset ''VLM_DEVICE'' ''GPU'' (preset ''VLM_WORKERS'' ''4'' empty_shell)))
        ''VLM_WORKERS'' = Some ''1''"
proof -
  have "(''LOG_LEVEL'', ''INFO'') \<in> set route_defaults" by (simp add: route_defaults_def)
  from route_defaulted [OF this, of "''10.0.0.1''" "preset ''LOG_LEVEL'' [] empty_shell"]
  have "vars (route_setup [''up''] ''10.0.0.1'' (preset ''LOG_LEVEL'' [] empty_shell)) ''LOG_LEVEL''
       = Some ''INFO''"
    by (simp add: route_setup_def preset_def expand_default_def)
  then show ?thesis
    by (simp add: agent_workers preset_def expand_default_def)
qed

text \<open>
  Claim C7, amended. For an invocation that reaches the exports, and for every variable that a
  script defaults with \<open>${NAME:-word}\<close> and does not assign again (\<open>LOG_LEVEL\<close> with default
  \<open>INFO\<close> in both scripts): a value set beforehand and not empty is exported unchanged; the
  default is exported when the variable is unset or empty.
\<close>

theorem defaults_apply_when_unset_or_empty:
  assumes "length args = 1" and "hd args \<noteq> ''help''"
  shows "(\<forall>(n, d) \<in> set route_defaults.
            (\<forall>v. vars sh n = Some v \<and> v \<noteq> [] \<longrightarrow> vars (route_setup args ip sh) n = Some v) \<and>
            (vars sh n = None \<or> vars sh n = Some [] \<longrightarrow> vars (route_setup args ip sh) n = Some d) \<and>
            n \<in> exported (route_setup args ip sh))
       \<and> (\<forall>(n, d) \<in> set agent_defaults.
            (\<forall>v. vars sh n = Some v \<and> v \<noteq> [] \<longrightarrow> vars (agent_environment u g r sh) n = Some v) \<and>
            (vars sh n = None \<or> vars sh n = Some [] \<longrightarrow> vars (agent_environment u g r sh) n = Some d) \<and>
            n \<in> exported (agent_environment u g r sh))
       \<and> (''LOG_LEVEL'', ''INFO'') \<in> set route_defaults
       \<and> (''LOG_LEVEL'', ''INFO'') \<in> set agent_defaults"
proof (intro conjI ballI)
  fix p assume p: "p \<in> set route_defaults"
  obtain n d where nd: "p = (n, d)" by (cases p)
  from route_defaulted [of n d ip sh] p nd
  show "case p of (n, d) \<Rightarrow>
            (\<forall>v. vars sh n = Some v \<and> v \<noteq> [] \<longrightarrow> vars (route_setup args ip sh) n = Some v) \<and>
            (vars sh n = None \<or> vars sh n = Some [] \<longrightarrow> vars (route_setup args ip sh) n = Some d) \<and>
            n \<in> exported (route_setup args ip sh)"
    by (auto simp: route_setup_runs [OF assms] expand_default_def)
next
  fix p assume p: "p \<in> set agent_defaults"
  obtain n d where nd: "p = (n, d)" by (cases p)
  from agent_defaulted [of n d u g r sh] p nd
  show "case p of (n, d) \<Rightarrow>
            (\<forall>v. vars sh n = Some v \<and> v \<noteq> [] \<longrightarrow> vars (agent_environment u g r sh) n = Some v) \<and>
            (vars sh n = None \<or> vars sh n = Some [] \<longrightarrow> vars (agent_environment u g r sh) n = Some d) \<and>
            n \<in> exported (agent_environment u g r sh)"
    by (auto simp: expand_default_def)
next
  show "(''LOG_LEVEL'', ''INFO'') \<in> set route_defaults" by (simp add: route_defaults_def)
  show "(''LOG_LEVEL'', ''INFO'') \<in> set agent_defaults" by (simp add: agent_defaults_def)
qed

theorem defaults_apply_when_unset_or_empty_witness:
  "vars (route_setup [''up''] ''10.0.0.1'' (preset ''LOG_LEVEL'' ''DEBUG'' empty_shell)) ''LOG_LEVEL''
     = Some ''DEBUG''
   \<and> vars (route_setup [''up''] ''10.0.0.1'' empty_shell) ''LOG_LEVEL'' = Some ''INFO''
   \<and> vars (agent_environment ''1000'' ''44'' ''109'' (preset ''LOG_LEVEL'' ''DEBUG'' empty_shell))
        ''LOG_LEVEL'' = Some ''DEBUG''
   \<and> vars (agent_environment ''1000'' ''44'' ''109'' empty_shell) ''LOG_LEVEL'' = Some ''INFO''"
proof -
  have a: "length [''up''] = 1" "hd [''up''] \<noteq> ''help''" by simp_all
  have r: "(''LOG_LEVEL'', ''INFO'') \<in> set route_defaults"
    and g: "(''LOG_LEVEL'', ''INFO'') \<in> set agent_defaults"
    by (simp_all add: route_defaults_def agent_defaults_def)
  note t1 = defaults_apply_when_unset_or_empty [OF a,
      of "preset ''LOG_LEVEL'' ''DEBUG'' empty_shell" "''10.0.0.1''" "''1000''" "''44''" "''109''"]
  note t2 = defaults_apply_when_unset_or_empty [OF a,
      of empty_shell "''10.0.0.1''" "''1000''" "''44''" "''109''"]
  from t1 r g have "vars (route_setup [''up''] ''10.0.0.1'' (preset ''LOG_LEVEL'' ''DEBUG'' empty_shell)) ''LOG_LEVEL''
     = Some ''DEBUG''"
    and "vars (agent_environment ''1000'' ''44'' ''109'' (preset ''LOG_LEVEL'' ''DEBUG'' empty_shell))
        ''LOG_LEVEL'' = Some ''DEBUG''"
    by (fastforce simp: preset_def)+
  moreover from t2 r g have "vars (route_setup [''up''] ''10.0.0.1'' empty_shell) ''LOG_LEVEL'' = Some ''INFO''"
    and "vars (agent_environment ''1000'' ''44'' ''109'' empty_shell) ''LOG_LEVEL'' = Some ''INFO''"
    by (fastforce simp: empty_shell_def)+
  ultimately show ?thesis by simp
qed

subsection \<open>The registry path\<close>

text \<open>
  Claim C8. The composition at lines 82 to 96 is to leave no duplicate path separator in
  \<open>REGISTRY\<close>, whatever the values of \<open>REGISTRY_URL\<close> and \<open>PROJECT_NAME\<close>; the
  script's own comments say as much (\<open>to avoid double slashes\<close>, \<open>combine with single
  slash\<close>). The script does not achieve this: \<open>${VAR%/}\<close> removes one trailing slash and
  nothing is removed at the start of a value. Run with one argument, with
  \<open>REGISTRY_URL=registry.local//\<close> and \<open>PROJECT_NAME=demo\<close> it exports
  \<open>registry.local//demo/\<close>, and with \<open>REGISTRY_URL\<close> unset and
  \<open>PROJECT_NAME=/demo\<close> it exports \<open>intel//demo/\<close>; both have two slashes in a row.
\<close>

theorem second_trailing_slash_survives:
  "vars (route_setup [''up''] ''10.0.0.1''
           (preset ''PROJECT_NAME'' ''demo'' (preset ''REGISTRY_URL'' ''registry.local//'' empty_shell)))
     ''REGISTRY'' = Some ''registry.local//demo/''
   \<and> double_slash ''registry.local//demo/''
   \<and> vars (route_setup [''up''] ''10.0.0.1'' (preset ''PROJECT_NAME'' ''/demo'' empty_shell))
     ''REGISTRY'' = Some ''intel//demo/''
   \<and> double_slash ''intel//demo/''"
  by (simp add: route_setup_def route_environment_def Let_def preset_def empty_shell_def
      compose_registry_def strip_slash_def expand_default_def detect_host_ip_other)

end
